theory Spec2Isabelle
  imports Complex_Main
begin

section \<open>Time: the JavaScript Date operations the attendance engine uses\<close>

text \<open>
  A \<^verbatim>\<open>Date\<close> is its time value: milliseconds since the epoch, an integer. The local-time
  methods (\<^verbatim>\<open>getHours\<close>, \<^verbatim>\<open>getMinutes\<close>, \<^verbatim>\<open>setHours\<close>, \<^verbatim>\<open>setDate\<close>) depend on the
  host's time zone; the zone is the parameter \<open>tz\<close>, the offset of local time from UTC in
  milliseconds, constant over the run (a zone without daylight-saving changes).
\<close>

type_synonym timestamp = int

definition localDay :: "int \<Rightarrow> timestamp \<Rightarrow> int" where
  \<comment> \<open>the number of the local calendar day of \<open>t\<close>, counted from 1970-01-01\<close>
  "localDay tz t = (t + tz) div 86400000"

definition timeOfDay :: "int \<Rightarrow> timestamp \<Rightarrow> int" where
  \<comment> \<open>milliseconds since local midnight\<close>
  "timeOfDay tz t = (t + tz) mod 86400000"

definition getHours :: "int \<Rightarrow> timestamp \<Rightarrow> int" where
  "getHours tz t = ((t + tz) div 3600000) mod 24"

definition getMinutes :: "int \<Rightarrow> timestamp \<Rightarrow> int" where
  "getMinutes tz t = ((t + tz) div 60000) mod 60"

definition setHours :: "int \<Rightarrow> timestamp \<Rightarrow> int \<Rightarrow> int \<Rightarrow> int \<Rightarrow> int \<Rightarrow> timestamp" where
  \<comment> \<open>\<^verbatim>\<open>d.setHours(h, m, s, ms)\<close>: same local day, the given local clock time\<close>
  "setHours tz t h m s ms =
     localDay tz t * 86400000 + h * 3600000 + m * 60000 + s * 1000 + ms - tz"

definition setDateRel :: "timestamp \<Rightarrow> int \<Rightarrow> timestamp" where
  \<comment> \<open>\<^verbatim>\<open>d.setDate(d.getDate() + k)\<close>: the same local clock time \<open>k\<close> calendar days later\<close>
  "setDateRel t k = t + k * 86400000"

definition hm :: "int \<Rightarrow> int \<Rightarrow> int" where
  \<comment> \<open>the clock time h:m as milliseconds since midnight\<close>
  "hm h m = h * 3600000 + m * 60000"

text \<open>
  The proleptic Gregorian calendar of \<^verbatim>\<open>Date\<close>: the civil date of a day number, and the
  day number of a civil date (months counted from 1 here).
\<close>

definition civilFromDays :: "int \<Rightarrow> int \<times> int \<times> int" where
  "civilFromDays n =
     (let z = n + 719468;
          era = z div 146097;
          doe = z - era * 146097;
          yoe = (doe - doe div 1460 + doe div 36524 - doe div 146096) div 365;
          doy = doe - (365 * yoe + yoe div 4 - yoe div 100);
          mp = (5 * doy + 2) div 153;
          d = doy - (153 * mp + 2) div 5 + 1;
          m = (if mp < 10 then mp + 3 else mp - 9);
          y = yoe + era * 400
      in (if m \<le> 2 then y + 1 else y, m, d))"

definition daysFromCivil :: "int \<Rightarrow> int \<Rightarrow> int \<Rightarrow> int" where
  "daysFromCivil y m d =
     (let y' = (if m \<le> 2 then y - 1 else y);
          era = y' div 400;
          yoe = y' - era * 400;
          doy = (153 * (if m > 2 then m - 3 else m + 9) + 2) div 5 + d - 1;
          doe = yoe * 365 + yoe div 4 - yoe div 100 + doy
      in era * 146097 + doe - 719468)"

definition mkDate :: "int \<Rightarrow> int \<Rightarrow> int \<Rightarrow> int \<Rightarrow> int \<Rightarrow> int \<Rightarrow> timestamp" where
  \<comment> \<open>\<^verbatim>\<open>new Date(y, m - 1, d, hh, mi)\<close>: the instant of a local date and clock time\<close>
  "mkDate tz y m d hh mi = daysFromCivil y m d * 86400000 + hm hh mi - tz"

definition calendarDate :: "int \<Rightarrow> timestamp \<Rightarrow> int \<times> int \<times> int" where
  \<comment> \<open>(\<^verbatim>\<open>getFullYear()\<close>, \<^verbatim>\<open>getMonth() + 1\<close>, \<^verbatim>\<open>getDate()\<close>)\<close>
  "calendarDate tz t = civilFromDays (localDay tz t)"

section \<open>The night-shift helper\<close>

text \<open>
  \<^verbatim>\<open>
  function getShiftDate(now) {
    const d = new Date(now);
    if (d.getHours() < 18) { d.setDate(d.getDate() - 1); }
    d.setHours(0, 0, 0, 0);
    return d;
  }
  \<close>
\<close>

definition getShiftDate :: "int \<Rightarrow> timestamp \<Rightarrow> timestamp" where
  "getShiftDate tz now =
     (let d = now;
          d = (if getHours tz d < 18 then setDateRel d (- 1) else d)
      in setHours tz d 0 0 0 0)"

section \<open>The attendance record and its three schema variants\<close>

text \<open>
  The status strings of the schema's \<^verbatim>\<open>enum\<close> and the routes' literals, as one datatype:
  \<^verbatim>\<open>'present', 'absent', 'late', 'early', 'overtime', 'clocked-out', 'early-clockout',
  'half-day', 'on-leave', 'holiday', 'weekend'\<close>.
\<close>

datatype status =
  Present | Absent | Late | Early | Overtime | ClockedOut | EarlyClockout
  | HalfDay | OnLeave | Holiday | Weekend

record stamp =
  time :: timestamp
  ipAddress :: string

record breakEntry =
  startTime :: timestamp
  endTime :: "timestamp option"
  duration :: "int option"
  reason :: string

record attendance =
  employee :: nat
  date :: timestamp
  checkIn :: "stamp option"
  checkOut :: "stamp option"
  status :: status
  workingHours :: real
  overtime :: real
  breaks :: "breakEntry list"

text \<open>
  Three files define the model \<^verbatim>\<open>Attendance\<close>: \<^verbatim>\<open>src/models/Attendance.js\<close> (beside the
  day-shift routes), and two night-shift variants whose overtime boundary is 4:00
  (\<^verbatim>\<open>part_006\<close>) and 4:05 (\<^verbatim>\<open>part_007\<close>). A route module works on the model it requires.
\<close>

datatype model = DayModel | Night400 | Night405

fun statusEnum :: "model \<Rightarrow> status list" where
  "statusEnum DayModel = [Present, Absent, Late, HalfDay, OnLeave, Holiday, Weekend]"
| "statusEnum Night400 =
     [Present, Absent, Late, Early, Overtime, ClockedOut, HalfDay, OnLeave, Holiday, Weekend]"
| "statusEnum Night405 =
     [Present, Absent, Late, Early, Overtime, ClockedOut, EarlyClockout,
      HalfDay, OnLeave, Holiday, Weekend]"

definition statusDefault :: "model \<Rightarrow> status" where
  "statusDefault m = Absent"

definition reasonEnum :: "string list" where
  "reasonEnum = [''washroom'', ''lunch'', ''cigarette'', ''break'']"

definition newAttendance :: "model \<Rightarrow> nat \<Rightarrow> timestamp \<Rightarrow> stamp \<Rightarrow> status option \<Rightarrow> attendance" where
  \<comment> \<open>the document \<^verbatim>\<open>Attendance.create({employee, date, checkIn, status})\<close> builds, with the
      schema's defaults\<close>
  "newAttendance m emp d ci st =
     \<lparr> employee = emp, date = d, checkIn = Some ci, checkOut = None,
       status = (case st of None \<Rightarrow> statusDefault m | Some x \<Rightarrow> x),
       workingHours = 0, overtime = 0, breaks = [] \<rparr>"

definition reasonsValid :: "attendance \<Rightarrow> bool" where
  "reasonsValid r = list_all (\<lambda>b. reason b \<in> set reasonEnum) (breaks r)"

definition validate :: "model \<Rightarrow> attendance \<Rightarrow> bool" where
  \<comment> \<open>the enum validators of \<^verbatim>\<open>status\<close> and of every break's \<^verbatim>\<open>reason\<close>\<close>
  "validate m r = (status r \<in> set (statusEnum m) \<and> reasonsValid r)"

subsection \<open>The pre-save hooks\<close>

definition totalBreakMinutes :: "breakEntry list \<Rightarrow> int" where
  \<comment> \<open>\<^verbatim>\<open>breaks.reduce((total, b) => total + (b.duration || 0), 0)\<close>\<close>
  "totalBreakMinutes bs =
     foldl (\<lambda>total b. total + (case duration b of None \<Rightarrow> 0 | Some d \<Rightarrow> d)) 0 bs"

definition diffHours :: "stamp \<Rightarrow> stamp \<Rightarrow> real" where
  "diffHours ci co = real_of_int (time co - time ci) / (1000 * 60 * 60)"

definition breakHours :: "attendance \<Rightarrow> real" where
  "breakHours r =
     (if length (breaks r) > 0 then real_of_int (totalBreakMinutes (breaks r)) / 60 else 0)"

definition preSaveDay :: "attendance \<Rightarrow> attendance" where
  \<comment> \<open>\<^verbatim>\<open>src/models/Attendance.js\<close>: overtime is assigned only when more than 8 hours were worked\<close>
  "preSaveDay r =
     (case checkIn r of None \<Rightarrow> r | Some ci \<Rightarrow>
      (case checkOut r of None \<Rightarrow> r | Some co \<Rightarrow>
        (let wh = max 0 (diffHours ci co - breakHours r);
             r = r\<lparr>workingHours := wh\<rparr>
         in if workingHours r > 8 then r\<lparr>overtime := workingHours r - 8\<rparr> else r)))"

definition preSaveNight :: "int \<Rightarrow> int \<Rightarrow> int \<Rightarrow> attendance \<Rightarrow> attendance" where
  \<comment> \<open>the night-shift variants: overtime runs from the boundary \<open>bh:bm\<close> of the check-out's
      local day to the check-out, in the morning only\<close>
  "preSaveNight tz bh bm r =
     (case checkIn r of None \<Rightarrow> r | Some ci \<Rightarrow>
      (case checkOut r of None \<Rightarrow> r | Some co \<Rightarrow>
        (let wh = max 0 (diffHours ci co - breakHours r);
             r = r\<lparr>workingHours := wh\<rparr>;
             checkOutDate = time co;
             overtimeThreshold = setHours tz checkOutDate bh bm 0 0
         in if checkOutDate > overtimeThreshold \<and> getHours tz checkOutDate < 12
            then r\<lparr>overtime := real_of_int (checkOutDate - overtimeThreshold) / (1000 * 60 * 60)\<rparr>
            else r\<lparr>overtime := 0\<rparr>)))"

fun preSave :: "int \<Rightarrow> model \<Rightarrow> attendance \<Rightarrow> attendance" where
  "preSave tz DayModel r = preSaveDay r"
| "preSave tz Night400 r = preSaveNight tz 4 0 r"
| "preSave tz Night405 r = preSaveNight tz 4 5 r"

subsection \<open>The collection, with its unique index on (employee, date)\<close>

type_synonym store = "nat \<times> timestamp \<rightharpoonup> attendance"

datatype storage_error = ValidationError | DuplicateKey | DocumentNotFound

definition save :: "int \<Rightarrow> model \<Rightarrow> store \<Rightarrow> attendance \<Rightarrow> storage_error + store" where
  \<comment> \<open>\<^verbatim>\<open>doc.save()\<close> of a document that was found: validation, the pre-save hook, the write\<close>
  "save tz m s r =
     (if validate m r then Inr (s((employee r, date r) \<mapsto> preSave tz m r))
      else Inl ValidationError)"

definition create :: "int \<Rightarrow> model \<Rightarrow> store \<Rightarrow> attendance \<Rightarrow> storage_error + store" where
  \<comment> \<open>\<^verbatim>\<open>Attendance.create(doc)\<close>: validation, the pre-save hook, then the insert, which the
      unique index refuses for a key already present\<close>
  "create tz m s r =
     (if validate m r
      then (case s (employee r, date r) of
              None \<Rightarrow> Inr (s((employee r, date r) \<mapsto> preSave tz m r))
            | Some _ \<Rightarrow> Inl DuplicateKey)
      else Inl ValidationError)"

definition push :: "int \<Rightarrow> model \<Rightarrow> store \<Rightarrow> attendance \<Rightarrow> breakEntry \<Rightarrow> storage_error + store" where
  \<comment> \<open>\<^verbatim>\<open>doc.save()\<close> of a found document \<open>r\<close> whose change is \<^verbatim>\<open>breaks.push(b)\<close>: validation
      and the pre-save hook run on the handler's copy \<open>r\<close>, which holds \<open>b\<close>; the write appends
      \<open>b\<close> to the array as it is stored then, and sets the fields the hook changed\<close>
  "push tz m s r b =
     (if validate m r
      then (case s (employee r, date r) of
              None \<Rightarrow> Inl DocumentNotFound
            | Some cur \<Rightarrow>
                (let r' = preSave tz m r
                 in Inr (s((employee r, date r) \<mapsto>
                      cur\<lparr>breaks := breaks cur @ [b],
                          workingHours := (if workingHours r' = workingHours r
                                           then workingHours cur else workingHours r'),
                          overtime := (if overtime r' = overtime r
                                       then overtime cur else overtime r')\<rparr>))))
      else Inl ValidationError)"

section \<open>The route handlers\<close>

text \<open>
  The errors are the handlers' rejections: HTTP 400 with a message, or HTTP 500 from the
  \<^verbatim>\<open>catch\<close> block, which reports whatever the storage layer raised.
  \<^item> \<open>AlreadyCheckedIn\<close>: 'Already checked in today' / 'Already checked in for this shift'
  \<^item> \<open>OutsideWindow\<close>: 'Cannot clock in after 4:00 PM' / 'Cannot clock in between 4:00 AM and 6:00 PM'
  \<^item> \<open>NotCheckedIn\<close>: 'You need to check in first'
  \<^item> \<open>AlreadyCheckedOut\<close>: 'Already checked out today' / 'Already checked out for this shift'
  \<^item> \<open>BreakAfterCheckout\<close>: 'Cannot start break after checkout'
  \<^item> \<open>BreakAlreadyOpen\<close>: 'You already have an active break. Please end it first.'
  \<^item> \<open>NoOpenBreak\<close>: 'No active break found'
  \<^item> \<open>ServerError e\<close>: status 500, 'Error checking in' and the like, with the raised error \<open>e\<close>
\<close>

datatype error =
  AlreadyCheckedIn | OutsideWindow | NotCheckedIn | AlreadyCheckedOut
  | BreakAfterCheckout | BreakAlreadyOpen | NoOpenBreak | ServerError storage_error

text \<open>
  A handler reads the record (\<^verbatim>\<open>await Attendance.findOne\<close>), runs its guards and decides
  on one write, which it then awaits: \<^verbatim>\<open>attendance.save()\<close> or \<^verbatim>\<open>Attendance.create\<close>.
  The handler's clock readings are one instant, \<open>now\<close>. Between the read and the write
  another request may be served: \<open>decide\<close> below is the part up to the write, on the store
  as read, and \<open>commit\<close> is the write, on the store as it is then. The save of a pushed
  break is a write of its own (\<open>Push\<close>): it appends to the stored array.
\<close>

datatype pending = Create attendance | Save attendance | Push attendance breakEntry

definition commit :: "int \<Rightarrow> model \<Rightarrow> store \<Rightarrow> pending \<Rightarrow> error + store" where
  "commit tz m s p =
     (case (case p of Create r \<Rightarrow> create tz m s r | Save r \<Rightarrow> save tz m s r
            | Push r b \<Rightarrow> push tz m s r b) of
        Inl e \<Rightarrow> Inl (ServerError e)
      | Inr s' \<Rightarrow> Inr s')"

definition hasCheckIn :: "attendance option \<Rightarrow> bool" where
  \<comment> \<open>\<^verbatim>\<open>attendance && attendance.checkIn?.time\<close>\<close>
  "hasCheckIn a = (case a of None \<Rightarrow> False | Some r \<Rightarrow> checkIn r \<noteq> None)"

definition isOpen :: "breakEntry \<Rightarrow> bool" where
  \<comment> \<open>\<^verbatim>\<open>b => !b.endTime\<close>\<close>
  "isOpen b = (endTime b = None)"

fun findIndex :: "('a \<Rightarrow> bool) \<Rightarrow> 'a list \<Rightarrow> nat option" where
  "findIndex P [] = None"
| "findIndex P (x # xs) = (if P x then Some 0 else map_option Suc (findIndex P xs))"

definition newBreak :: "timestamp \<Rightarrow> string option \<Rightarrow> breakEntry" where
  \<comment> \<open>\<^verbatim>\<open>{ startTime: breakStartTime, reason: reason || 'break' }\<close>\<close>
  "newBreak now rsn =
     \<lparr> startTime = now, endTime = None, duration = None,
       reason = (case rsn of None \<Rightarrow> ''break'' | Some x \<Rightarrow> if x = [] then ''break'' else x) \<rparr>"

definition pushBreak :: "attendance \<Rightarrow> timestamp \<Rightarrow> string option \<Rightarrow> attendance" where
  \<comment> \<open>\<^verbatim>\<open>attendance.breaks.push({ startTime, reason: reason || 'break' })\<close>\<close>
  "pushBreak a now rsn = a\<lparr>breaks := breaks a @ [newBreak now rsn]\<rparr>"

definition closeBreak :: "attendance \<Rightarrow> nat \<Rightarrow> timestamp \<Rightarrow> attendance" where
  \<comment> \<open>\<^verbatim>\<open>activeBreak.endTime = breakEndTime; activeBreak.duration = Math.floor(durationMs / 60000)\<close>\<close>
  "closeBreak a i now =
     (let activeBreak = breaks a ! i;
          durationMs = now - startTime activeBreak
      in a\<lparr>breaks := (breaks a)[i := activeBreak\<lparr>endTime := Some now,
                                                  duration := Some (durationMs div (1000 * 60))\<rparr>]\<rparr>)"

definition startBreakOn :: "attendance option \<Rightarrow> timestamp \<Rightarrow> string option \<Rightarrow> error + pending" where
  \<comment> \<open>the body of \<^verbatim>\<open>POST /break/start\<close> after the lookup, the same in both route modules\<close>
  "startBreakOn found now rsn =
     (case found of None \<Rightarrow> Inl NotCheckedIn | Some a \<Rightarrow>
       if checkIn a = None then Inl NotCheckedIn
       else if checkOut a \<noteq> None then Inl BreakAfterCheckout
       else if find isOpen (breaks a) \<noteq> None then Inl BreakAlreadyOpen
       else Inr (Push (pushBreak a now rsn) (newBreak now rsn)))"

definition endBreakOn :: "attendance option \<Rightarrow> timestamp \<Rightarrow> error + pending" where
  \<comment> \<open>the body of \<^verbatim>\<open>POST /break/end\<close> after the lookup, the same in both route modules\<close>
  "endBreakOn found now =
     (case found of None \<Rightarrow> Inl NotCheckedIn | Some a \<Rightarrow>
       if checkIn a = None then Inl NotCheckedIn
       else (case findIndex isOpen (breaks a) of
               None \<Rightarrow> Inl NoOpenBreak
             | Some i \<Rightarrow> Inr (Save (closeBreak a i now))))"

definition checkOutGuards :: "attendance option \<Rightarrow> error + attendance" where
  \<comment> \<open>the guards of \<^verbatim>\<open>POST /check-out\<close>, the same in both route modules\<close>
  "checkOutGuards found =
     (case found of None \<Rightarrow> Inl NotCheckedIn | Some a \<Rightarrow>
       if checkIn a = None then Inl NotCheckedIn
       else if checkOut a \<noteq> None then Inl AlreadyCheckedOut
       else Inr a)"

definition writeCheckIn :: "model \<Rightarrow> attendance option \<Rightarrow> nat \<Rightarrow> timestamp \<Rightarrow> stamp \<Rightarrow> status \<Rightarrow> pending" where
  \<comment> \<open>\<^verbatim>\<open>if (attendance) { ...; attendance.save() } else { Attendance.create({...}) }\<close>\<close>
  "writeCheckIn m found emp d ci st =
     (case found of
        Some a \<Rightarrow> Save (a\<lparr>checkIn := Some ci, status := st\<rparr>)
      | None \<Rightarrow> Create (newAttendance m emp d ci (Some st)))"

subsection \<open>Day shift: \<^verbatim>\<open>src/routes/attendance.routes.js\<close>\<close>

definition dayClassifyCheckIn :: "int \<Rightarrow> timestamp \<Rightarrow> status" where
  "dayClassifyCheckIn tz checkInTime =
     (let earlyThreshold = setHours tz checkInTime 7 0 0 0;
          presentThreshold = setHours tz checkInTime 7 5 0 0
      in if checkInTime < earlyThreshold then Early
         else if checkInTime \<le> presentThreshold then Present
         else Late)"

definition dayCheckIn :: "int \<Rightarrow> model \<Rightarrow> store \<Rightarrow> nat \<Rightarrow> string \<Rightarrow> timestamp \<Rightarrow> error + pending" where
  "dayCheckIn tz m s emp ip now =
     (let today = setHours tz now 0 0 0 0;
          found = s (emp, today)
      in if hasCheckIn found then Inl AlreadyCheckedIn
         else let checkInTime = now;
                  cutoffTime = setHours tz now 16 0 0 0
              in if checkInTime \<ge> cutoffTime then Inl OutsideWindow
                 else Inr (writeCheckIn m found emp today
                             \<lparr>time = checkInTime, ipAddress = ip\<rparr>
                             (dayClassifyCheckIn tz checkInTime)))"

definition dayClassifyCheckOut :: "int \<Rightarrow> timestamp \<Rightarrow> status \<Rightarrow> status" where
  "dayClassifyCheckOut tz checkOutTime prior =
     (let normalEndStart = setHours tz checkOutTime 16 0 0 0;
          normalEndEnd = setHours tz checkOutTime 16 5 0 0
      in if checkOutTime > normalEndEnd then Overtime
         else if checkOutTime \<ge> normalEndStart \<and> checkOutTime \<le> normalEndEnd then ClockedOut
         else prior)"

definition dayCheckOut :: "int \<Rightarrow> store \<Rightarrow> nat \<Rightarrow> string \<Rightarrow> timestamp \<Rightarrow> error + pending" where
  "dayCheckOut tz s emp ip now =
     (let today = setHours tz now 0 0 0 0
      in case checkOutGuards (s (emp, today)) of
           Inl e \<Rightarrow> Inl e
         | Inr a \<Rightarrow>
             Inr (Save (a\<lparr>checkOut := Some \<lparr>time = now, ipAddress = ip\<rparr>,
                          status := dayClassifyCheckOut tz now (status a)\<rparr>)))"

definition dayStartBreak :: "int \<Rightarrow> store \<Rightarrow> nat \<Rightarrow> timestamp \<Rightarrow> string option \<Rightarrow> error + pending" where
  "dayStartBreak tz s emp now rsn = startBreakOn (s (emp, setHours tz now 0 0 0 0)) now rsn"

definition dayEndBreak :: "int \<Rightarrow> store \<Rightarrow> nat \<Rightarrow> timestamp \<Rightarrow> error + pending" where
  "dayEndBreak tz s emp now = endBreakOn (s (emp, setHours tz now 0 0 0 0)) now"

subsection \<open>Night shift: the route module of \<^verbatim>\<open>part_001\<close>\<close>

definition nightClassifyCheckIn :: "int \<Rightarrow> timestamp \<Rightarrow> status" where
  "nightClassifyCheckIn tz now =
     (let currentHour = getHours tz now;
          currentMinute = getMinutes tz now
      in if currentHour \<ge> 18 \<and> currentHour < 19 then Early
         else if currentHour = 19 \<and> currentMinute \<le> 5 then Present
         else Late)"

definition nightCheckIn :: "int \<Rightarrow> model \<Rightarrow> store \<Rightarrow> nat \<Rightarrow> string \<Rightarrow> timestamp \<Rightarrow> error + pending" where
  "nightCheckIn tz m s emp ip now =
     (let currentHour = getHours tz now
      in if currentHour \<ge> 4 \<and> currentHour < 18 then Inl OutsideWindow
         else let shiftDate = getShiftDate tz now;
                  found = s (emp, shiftDate)
              in if hasCheckIn found then Inl AlreadyCheckedIn
                 else Inr (writeCheckIn m found emp shiftDate
                             \<lparr>time = now, ipAddress = ip\<rparr>
                             (nightClassifyCheckIn tz now)))"

definition nightClassifyCheckOut :: "int \<Rightarrow> timestamp \<Rightarrow> status \<Rightarrow> status" where
  "nightClassifyCheckOut tz checkOutTime prior =
     (let hour = getHours tz checkOutTime;
          earlyClockoutLimit = setHours tz checkOutTime 3 55 0 0;
          normalStart = setHours tz checkOutTime 4 0 0 0;
          normalEnd = setHours tz checkOutTime 4 5 0 0
      in if hour < 12
         then (if checkOutTime < earlyClockoutLimit then EarlyClockout
               else if checkOutTime \<ge> normalStart \<and> checkOutTime \<le> normalEnd then ClockedOut
               else if checkOutTime > normalEnd then Overtime
               else ClockedOut)
         else prior)"

definition nightCheckOut :: "int \<Rightarrow> store \<Rightarrow> nat \<Rightarrow> string \<Rightarrow> timestamp \<Rightarrow> error + pending" where
  "nightCheckOut tz s emp ip now =
     (let shiftDate = getShiftDate tz now
      in case checkOutGuards (s (emp, shiftDate)) of
           Inl e \<Rightarrow> Inl e
         | Inr a \<Rightarrow>
             Inr (Save (a\<lparr>checkOut := Some \<lparr>time = now, ipAddress = ip\<rparr>,
                          status := nightClassifyCheckOut tz now (status a)\<rparr>)))"

definition nightStartBreak :: "int \<Rightarrow> store \<Rightarrow> nat \<Rightarrow> timestamp \<Rightarrow> string option \<Rightarrow> error + pending" where
  "nightStartBreak tz s emp now rsn = startBreakOn (s (emp, getShiftDate tz now)) now rsn"

definition nightEndBreak :: "int \<Rightarrow> store \<Rightarrow> nat \<Rightarrow> timestamp \<Rightarrow> error + pending" where
  "nightEndBreak tz s emp now = endBreakOn (s (emp, getShiftDate tz now)) now"

subsection \<open>Requests, and runs of requests\<close>

datatype routes = DayRoutes | NightRoutes

datatype request = CheckIn | CheckOut | StartBreak "string option" | EndBreak

fun decide :: "int \<Rightarrow> model \<Rightarrow> routes \<Rightarrow> store \<Rightarrow> request \<Rightarrow> nat \<Rightarrow> string \<Rightarrow> timestamp \<Rightarrow> error + pending" where
  "decide tz m DayRoutes s CheckIn emp ip now = dayCheckIn tz m s emp ip now"
| "decide tz m DayRoutes s CheckOut emp ip now = dayCheckOut tz s emp ip now"
| "decide tz m DayRoutes s (StartBreak rsn) emp ip now = dayStartBreak tz s emp now rsn"
| "decide tz m DayRoutes s EndBreak emp ip now = dayEndBreak tz s emp now"
| "decide tz m NightRoutes s CheckIn emp ip now = nightCheckIn tz m s emp ip now"
| "decide tz m NightRoutes s CheckOut emp ip now = nightCheckOut tz s emp ip now"
| "decide tz m NightRoutes s (StartBreak rsn) emp ip now = nightStartBreak tz s emp now rsn"
| "decide tz m NightRoutes s EndBreak emp ip now = nightEndBreak tz s emp now"

definition handle :: "int \<Rightarrow> model \<Rightarrow> routes \<Rightarrow> store \<Rightarrow> request \<Rightarrow> nat \<Rightarrow> string \<Rightarrow> timestamp \<Rightarrow> error + store" where
  \<comment> \<open>one request served alone: the decision and its write on the same store\<close>
  "handle tz m rt s rq emp ip now =
     (case decide tz m rt s rq emp ip now of Inl e \<Rightarrow> Inl e | Inr p \<Rightarrow> commit tz m s p)"

fun run :: "int \<Rightarrow> model \<Rightarrow> routes \<Rightarrow> store \<Rightarrow> (request \<times> nat \<times> string \<times> timestamp) list \<Rightarrow> store" where
  \<comment> \<open>requests served one after the other; a rejected request leaves the store as it was\<close>
  "run tz m rt s [] = s"
| "run tz m rt s ((rq, emp, ip, now) # rest) =
     run tz m rt (case handle tz m rt s rq emp ip now of Inl e \<Rightarrow> s | Inr s' \<Rightarrow> s') rest"

definition openCount :: "attendance \<Rightarrow> nat" where
  \<comment> \<open>the number of break entries whose \<^verbatim>\<open>endTime\<close> is unset\<close>
  "openCount r = length (filter isOpen (breaks r))"

section \<open>Concrete records of the examples\<close>

definition nightRecord :: attendance where
  "nightRecord = newAttendance Night405 1 1709942400000
                   \<lparr>time = 1710010800000, ipAddress = ''10.0.0.1''\<rparr> (Some Present)"

definition nightStore :: store where
  \<comment> \<open>the store after a night-shift check-in at 19:00 on 2024-03-09\<close>
  "nightStore = [(1, 1709942400000) \<mapsto> nightRecord]"

section \<open>Predicates on records and stores\<close>

definition shiftKey :: "int \<Rightarrow> routes \<Rightarrow> timestamp \<Rightarrow> timestamp" where
  \<comment> \<open>the \<^verbatim>\<open>date\<close> a route module looks a record up by: \<^verbatim>\<open>today\<close> in the day-shift module,
      \<^verbatim>\<open>getShiftDate(now)\<close> in the night-shift module\<close>
  "shiftKey tz rt now =
     (case rt of DayRoutes \<Rightarrow> setHours tz now 0 0 0 0 | NightRoutes \<Rightarrow> getShiftDate tz now)"

definition recOf :: "pending \<Rightarrow> attendance" where
  \<comment> \<open>the handler's copy of the document it writes\<close>
  "recOf p = (case p of Create r \<Rightarrow> r | Save r \<Rightarrow> r | Push r b \<Rightarrow> r)"

definition asSave :: "pending \<Rightarrow> pending" where
  "asSave p = (case p of Push r b \<Rightarrow> Save r | _ \<Rightarrow> p)"

definition recordInv :: "attendance \<Rightarrow> bool" where
  "recordInv r = (checkIn r \<noteq> None \<and> openCount r \<le> 1)"

text \<open>
  What every store built by the handlers satisfies: a record sits under its own
  (employee, date), has a check-in, has at most one open break and passes the schema.
\<close>

definition storeInv :: "model \<Rightarrow> store \<Rightarrow> bool" where
  "storeInv m s =
     (\<forall>k r. s k = Some r \<longrightarrow> (employee r, date r) = k \<and> recordInv r \<and> validate m r)"

definition atMostOneOpen :: "store \<Rightarrow> bool" where
  \<comment> \<open>no record of the store has two break entries without \<^verbatim>\<open>endTime\<close>\<close>
  "atMostOneOpen s = (\<forall>k r. s k = Some r \<longrightarrow> openCount r \<le> 1)"

section \<open>Concrete runs of the examples\<close>

text \<open>
  A night shift: check-in at 19:00 on 2024-03-09, a lunch break from 23:00 to 23:30,
  check-out at 04:10 on 2024-03-10.
\<close>

definition scenarioB :: "int \<Rightarrow> (request \<times> nat \<times> string \<times> timestamp) list" where
  "scenarioB tz =
     [(CheckIn, 1, ''10.0.0.1'', mkDate tz 2024 3 9 19 0),
      (StartBreak (Some ''lunch''), 1, ''10.0.0.1'', mkDate tz 2024 3 9 23 0),
      (EndBreak, 1, ''10.0.0.1'', mkDate tz 2024 3 9 23 30),
      (CheckOut, 1, ''10.0.0.1'', mkDate tz 2024 3 10 4 10)]"

definition scenarioBRecord :: "int \<Rightarrow> attendance" where
  "scenarioBRecord tz =
     \<lparr> employee = 1, date = mkDate tz 2024 3 9 0 0,
       checkIn = Some \<lparr>time = mkDate tz 2024 3 9 19 0, ipAddress = ''10.0.0.1''\<rparr>,
       checkOut = Some \<lparr>time = mkDate tz 2024 3 10 4 10, ipAddress = ''10.0.0.1''\<rparr>,
       status = Overtime, workingHours = 26 / 3, overtime = 1 / 12,
       breaks = [\<lparr>startTime = mkDate tz 2024 3 9 23 0, endTime = Some (mkDate tz 2024 3 9 23 30),
                  duration = Some 30, reason = ''lunch''\<rparr>] \<rparr>"

text \<open>
  A day shift on 2024-03-11: check-in at 07:03, a break started at 10:00 and left open,
  check-out at 15:30, and the break ended at 15:50.
\<close>

definition scenarioA :: "int \<Rightarrow> (request \<times> nat \<times> string \<times> timestamp) list" where
  "scenarioA tz =
     [(CheckIn, 1, ''10.0.0.1'', mkDate tz 2024 3 11 7 3),
      (StartBreak None, 1, ''10.0.0.1'', mkDate tz 2024 3 11 10 0),
      (CheckOut, 1, ''10.0.0.1'', mkDate tz 2024 3 11 15 30),
      (EndBreak, 1, ''10.0.0.1'', mkDate tz 2024 3 11 15 50)]"

definition scenarioARecord :: "int \<Rightarrow> attendance" where
  "scenarioARecord tz =
     \<lparr> employee = 1, date = mkDate tz 2024 3 11 0 0,
       checkIn = Some \<lparr>time = mkDate tz 2024 3 11 7 3, ipAddress = ''10.0.0.1''\<rparr>,
       checkOut = Some \<lparr>time = mkDate tz 2024 3 11 15 30, ipAddress = ''10.0.0.1''\<rparr>,
       status = Present, workingHours = 157 / 60, overtime = 9 / 20,
       breaks = [\<lparr>startTime = mkDate tz 2024 3 11 10 0, endTime = Some (mkDate tz 2024 3 11 15 50),
                  duration = Some 350, reason = ''break''\<rparr>] \<rparr>"

definition dayStore :: "int \<Rightarrow> store" where
  \<comment> \<open>the store after a day-shift check-in at 07:03 on 2024-03-11\<close>
  "dayStore tz =
     [(1, mkDate tz 2024 3 11 0 0) \<mapsto>
        newAttendance DayModel 1 (mkDate tz 2024 3 11 0 0)
          \<lparr>time = mkDate tz 2024 3 11 7 3, ipAddress = ''10.0.0.1''\<rparr> (Some Present)]"

text \<open>
  A day shift on 2024-03-11 in which the employee checks out while a break is open:
  check-in at 07:03, break start at 10:00, check-out at 15:30.
\<close>

definition openAtCheckout :: "(request \<times> nat \<times> string \<times> timestamp) list" where
  "openAtCheckout =
     [(CheckIn, 1, ''10.0.0.1'', mkDate 0 2024 3 11 7 3),
      (StartBreak None, 1, ''10.0.0.1'', mkDate 0 2024 3 11 10 0),
      (CheckOut, 1, ''10.0.0.1'', mkDate 0 2024 3 11 15 30)]"

definition openAtCheckoutRecord :: attendance where
  "openAtCheckoutRecord =
     \<lparr> employee = 1, date = mkDate 0 2024 3 11 0 0,
       checkIn = Some \<lparr>time = mkDate 0 2024 3 11 7 3, ipAddress = ''10.0.0.1''\<rparr>,
       checkOut = Some \<lparr>time = mkDate 0 2024 3 11 15 30, ipAddress = ''10.0.0.1''\<rparr>,
       status = Present, workingHours = 169 / 20, overtime = 9 / 20,
       breaks = [\<lparr>startTime = mkDate 0 2024 3 11 10 0, endTime = None,
                  duration = None, reason = ''break''\<rparr>] \<rparr>"

text \<open>
  Two requests whose handlers overlap: both read the store before either writes. The
  result is the store after both writes, the first request's write first; a rejection by
  either handler's guards, or a failed first write, is returned as it is.
\<close>

fun overlapped :: "int \<Rightarrow> model \<Rightarrow> routes \<Rightarrow> store \<Rightarrow> (request \<times> nat \<times> string \<times> timestamp) \<Rightarrow>
    (request \<times> nat \<times> string \<times> timestamp) \<Rightarrow> error + store" where
  "overlapped tz m rt s (rq1, emp1, ip1, now1) (rq2, emp2, ip2, now2) =
     (case decide tz m rt s rq1 emp1 ip1 now1 of
        Inl e \<Rightarrow> Inl e
      | Inr p1 \<Rightarrow>
          (case decide tz m rt s rq2 emp2 ip2 now2 of
             Inl e \<Rightarrow> Inl e
           | Inr p2 \<Rightarrow>
               (case commit tz m s p1 of
                  Inl e \<Rightarrow> Inl e
                | Inr s1 \<Rightarrow> commit tz m s1 p2)))"

definition twoOpenNight :: attendance where
  \<comment> \<open>the night-shift record of 2024-03-09 after two overlapping break starts at 23:00\<close>
  "twoOpenNight =
     nightRecord\<lparr>breaks :=
       [\<lparr>startTime = mkDate 0 2024 3 9 23 0, endTime = None, duration = None,
          reason = ''lunch''\<rparr>,
        \<lparr>startTime = mkDate 0 2024 3 9 23 0 + 400, endTime = None, duration = None,
          reason = ''break''\<rparr>]\<rparr>"

definition twoOpenDay :: attendance where
  \<comment> \<open>the day-shift record of 2024-03-11 after two overlapping break starts at 10:00\<close>
  "twoOpenDay =
     \<lparr> employee = 1, date = mkDate 0 2024 3 11 0 0,
       checkIn = Some \<lparr>time = mkDate 0 2024 3 11 7 3, ipAddress = ''10.0.0.1''\<rparr>,
       checkOut = None, status = Present, workingHours = 0, overtime = 0,
       breaks =
         [\<lparr>startTime = mkDate 0 2024 3 11 10 0, endTime = None, duration = None,
            reason = ''lunch''\<rparr>,
          \<lparr>startTime = mkDate 0 2024 3 11 10 0 + 400, endTime = None, duration = None,
            reason = ''break''\<rparr>]\<rparr>"

definition racingCreate :: pending where
  \<comment> \<open>the write a second day-shift check-in at 07:03 decides on while the collection is
      still empty\<close>
  "racingCreate =
     Create (newAttendance DayModel 1 (mkDate 0 2024 3 11 0 0)
               \<lparr>time = mkDate 0 2024 3 11 7 3, ipAddress = ''10.0.0.2''\<rparr> (Some Present))"

section \<open>Facts about the clock\<close>

lemma div_then_mod:
  assumes a: "0 < a" and b: "0 \<le> b"
  shows "((x::int) div a) mod b = (x mod (a * b)) div a"
proof -
  have "x mod (a * b) = a * (x div a mod b) + x mod a"
    using b by (rule zmod_zmult2_eq)
  then have "(x mod (a * b)) div a = (x mod a + (x div a mod b) * a) div a"
    by (simp add: algebra_simps)
  also have "\<dots> = (x mod a) div a + x div a mod b"
    using a by (simp add: div_mult_self1)
  also have "(x mod a) div a = 0"
    using a by (simp add: div_pos_pos_trivial)
  finally show ?thesis by simp
qed

lemma localDay_setHours:
  assumes "0 \<le> h * 3600000 + m * 60000 + s * 1000 + ms"
    and "h * 3600000 + m * 60000 + s * 1000 + ms < 86400000"
  shows "localDay tz (setHours tz t h m s ms) = localDay tz t"
  using assms by (simp add: setHours_def localDay_def)

lemma timeOfDay_setHours:
  assumes "0 \<le> h * 3600000 + m * 60000 + s * 1000 + ms"
    and "h * 3600000 + m * 60000 + s * 1000 + ms < 86400000"
  shows "timeOfDay tz (setHours tz t h m s ms) = h * 3600000 + m * 60000 + s * 1000 + ms"
proof -
  let ?c = "h * 3600000 + m * 60000 + s * 1000 + ms"
  have "setHours tz t h m s ms + tz = ?c + localDay tz t * 86400000"
    by (simp add: setHours_def)
  then have "timeOfDay tz (setHours tz t h m s ms) = (?c + localDay tz t * 86400000) mod 86400000"
    by (simp only: timeOfDay_def)
  also have "\<dots> = ?c mod 86400000"
    by (rule mod_mult_self1)
  also have "\<dots> = ?c"
    using assms by (simp add: mod_pos_pos_trivial)
  finally show ?thesis .
qed

lemma local_split: "t + tz = localDay tz t * 86400000 + timeOfDay tz t"
  by (simp add: localDay_def timeOfDay_def)

lemma timeOfDay_range: "0 \<le> timeOfDay tz t \<and> timeOfDay tz t < 86400000"
  by (simp add: timeOfDay_def)

lemma getHours_timeOfDay: "getHours tz t = timeOfDay tz t div 3600000"
  using div_then_mod [of 3600000 24 "t + tz"] by (simp add: getHours_def timeOfDay_def)

lemma localDay_prev: "localDay tz (setDateRel t (- 1)) = localDay tz t - 1"
  by (simp add: localDay_def setDateRel_def)

text \<open>A comparison with a clock time of the same local day is a comparison of times of day.\<close>

lemma less_setHours: "t < setHours tz t h m 0 0 \<longleftrightarrow> timeOfDay tz t < hm h m"
  using local_split [of t tz] unfolding setHours_def hm_def by linarith

lemma le_setHours: "t \<le> setHours tz t h m 0 0 \<longleftrightarrow> timeOfDay tz t \<le> hm h m"
  using local_split [of t tz] unfolding setHours_def hm_def by linarith

lemma civil_2024_03_09: "civilFromDays 19791 = (2024, 3, 9)"
  by code_simp

lemma civil_2024_03_10: "civilFromDays 19792 = (2024, 3, 10)"
  by code_simp

lemma days_2024_03_09: "daysFromCivil 2024 3 9 = 19791"
  by code_simp

lemma days_2024_03_10: "daysFromCivil 2024 3 10 = 19792"
  by code_simp

section \<open>Claim C1\<close>

text \<open>
  C1. The night-shift shift-date resolver is a function of \<open>now\<close> (and the host's zone)
  alone. When the local hour of \<open>now\<close> is 18 or greater it returns local midnight of the
  calendar day of \<open>now\<close>; when the local hour is less than 18 it returns local midnight of
  the previous calendar day. A timestamp at 2024-03-10T02:00 resolves to the shift-date
  2024-03-09, and a timestamp at 2024-03-10T19:00 to the shift-date 2024-03-10.
\<close>

theorem getShiftDate_resolves:
  "(18 \<le> getHours tz now \<longrightarrow>
      localDay tz (getShiftDate tz now) = localDay tz now \<and>
      getShiftDate tz now = setHours tz now 0 0 0 0) \<and>
   (getHours tz now < 18 \<longrightarrow>
      localDay tz (getShiftDate tz now) = localDay tz now - 1 \<and>
      getShiftDate tz now = setHours tz (now - 86400000) 0 0 0 0) \<and>
   timeOfDay tz (getShiftDate tz now) = 0 \<and>
   getShiftDate tz (mkDate tz 2024 3 10 2 0) = mkDate tz 2024 3 9 0 0 \<and>
   calendarDate tz (getShiftDate tz (mkDate tz 2024 3 10 2 0)) = (2024, 3, 9) \<and>
   getShiftDate tz (mkDate tz 2024 3 10 19 0) = mkDate tz 2024 3 10 0 0 \<and>
   calendarDate tz (getShiftDate tz (mkDate tz 2024 3 10 19 0)) = (2024, 3, 10)"
proof -
  have late: "18 \<le> getHours tz now \<Longrightarrow>
      localDay tz (getShiftDate tz now) = localDay tz now \<and>
      getShiftDate tz now = setHours tz now 0 0 0 0"
    by (simp add: getShiftDate_def localDay_setHours)
  have early: "getHours tz now < 18 \<Longrightarrow>
      localDay tz (getShiftDate tz now) = localDay tz now - 1 \<and>
      getShiftDate tz now = setHours tz (now - 86400000) 0 0 0 0"
    using localDay_prev [of tz now]
    by (simp add: getShiftDate_def localDay_setHours) (simp add: setDateRel_def)
  have midnight: "timeOfDay tz (getShiftDate tz now) = 0"
    using timeOfDay_setHours [of 0 0 0 0 tz]
    by (simp add: getShiftDate_def Let_def)
  have a: "mkDate tz 2024 3 10 2 0 = 1710036000000 - tz"
    by (simp add: mkDate_def days_2024_03_10 hm_def)
  have b: "mkDate tz 2024 3 10 19 0 = 1710097200000 - tz"
    by (simp add: mkDate_def days_2024_03_10 hm_def)
  have c: "mkDate tz 2024 3 9 0 0 = 1709942400000 - tz"
    by (simp add: mkDate_def days_2024_03_09 hm_def)
  have d: "mkDate tz 2024 3 10 0 0 = 1710028800000 - tz"
    by (simp add: mkDate_def days_2024_03_10 hm_def)
  have ex1: "getShiftDate tz (mkDate tz 2024 3 10 2 0) = mkDate tz 2024 3 9 0 0"
    unfolding a c
    by (simp add: getShiftDate_def getHours_def setDateRel_def setHours_def localDay_def)
  have ex2: "getShiftDate tz (mkDate tz 2024 3 10 19 0) = mkDate tz 2024 3 10 0 0"
    unfolding b d
    by (simp add: getShiftDate_def getHours_def setDateRel_def setHours_def localDay_def)
  have "localDay tz (1709942400000 - tz) = 19791"
    by (simp add: localDay_def)
  then have cal1: "calendarDate tz (getShiftDate tz (mkDate tz 2024 3 10 2 0)) = (2024, 3, 9)"
    unfolding ex1 c by (simp add: calendarDate_def civil_2024_03_09)
  have "localDay tz (1710028800000 - tz) = 19792"
    by (simp add: localDay_def)
  then have cal2: "calendarDate tz (getShiftDate tz (mkDate tz 2024 3 10 19 0)) = (2024, 3, 10)"
    unfolding ex2 d by (simp add: calendarDate_def civil_2024_03_10)
  from late early midnight ex1 ex2 cal1 cal2 show ?thesis by blast
qed

theorem getShiftDate_resolves_witness:
  "18 \<le> getHours 0 1710097200000 \<and> getShiftDate 0 1710097200000 = 1710028800000 \<and>
   getHours 0 1710036000000 < 18 \<and> getShiftDate 0 1710036000000 = 1709942400000"
proof -
  have h1: "18 \<le> getHours 0 1710097200000" by (simp add: getHours_def)
  have h2: "getHours 0 1710036000000 < 18" by (simp add: getHours_def)
  have "getShiftDate 0 1710097200000 = setHours 0 1710097200000 0 0 0 0"
    using getShiftDate_resolves [of 0 1710097200000] h1 by blast
  moreover have "getShiftDate 0 1710036000000 = setHours 0 (1710036000000 - 86400000) 0 0 0 0"
    using getShiftDate_resolves [of 0 1710036000000] h2 by blast
  ultimately show ?thesis using h1 h2 by (simp add: setHours_def localDay_def)
qed

section \<open>Facts about the hooks and the writes\<close>

lemma preSave_status [simp]: "status (preSave tz m r) = status r"
  by (cases m) (simp_all add: preSave.simps preSaveDay_def preSaveNight_def Let_def split: option.splits)

lemma preSave_checkIn [simp]: "checkIn (preSave tz m r) = checkIn r"
  by (cases m) (simp_all add: preSave.simps preSaveDay_def preSaveNight_def Let_def split: option.splits)

lemma preSave_checkOut [simp]: "checkOut (preSave tz m r) = checkOut r"
  by (cases m) (simp_all add: preSave.simps preSaveDay_def preSaveNight_def Let_def split: option.splits)

lemma preSave_breaks [simp]: "breaks (preSave tz m r) = breaks r"
  by (cases m) (simp_all add: preSave.simps preSaveDay_def preSaveNight_def Let_def split: option.splits)

lemma preSave_employee [simp]: "employee (preSave tz m r) = employee r"
  by (cases m) (simp_all add: preSave.simps preSaveDay_def preSaveNight_def Let_def split: option.splits)

lemma preSave_date [simp]: "date (preSave tz m r) = date r"
  by (cases m) (simp_all add: preSave.simps preSaveDay_def preSaveNight_def Let_def split: option.splits)

declare preSave.simps [simp del]

section \<open>Claim C2\<close>

lemma nightCheckIn_deadzone:
  "4 \<le> getHours tz now \<Longrightarrow> getHours tz now < 18 \<Longrightarrow>
   handle tz m NightRoutes s CheckIn emp ip now = Inl OutsideWindow"
  by (simp add: handle_def nightCheckIn_def)

lemma nightClassify_status_ok: "m \<noteq> DayModel \<Longrightarrow> nightClassifyCheckIn tz now \<in> set (statusEnum m)"
  by (cases m) (simp_all add: nightClassifyCheckIn_def Let_def)

lemma preSave_no_checkOut: "checkOut r = None \<Longrightarrow> preSave tz m r = r"
  by (cases m) (simp_all add: preSave.simps preSaveDay_def preSaveNight_def split: option.splits)

lemma nightClassifyCheckIn_cases:
  "nightClassifyCheckIn tz now =
     (if 18 \<le> getHours tz now \<and> getHours tz now < 19 then Early
      else if getHours tz now = 19 \<and> getMinutes tz now \<le> 5 then Present
      else Late)"
  by (simp add: nightClassifyCheckIn_def Let_def)

lemma nightCheckIn_permitted:
  assumes permitted: "getHours tz now < 4 \<or> 18 \<le> getHours tz now"
    and m: "m \<noteq> DayModel"
    and fresh: "\<not> hasCheckIn (s (emp, getShiftDate tz now))"
    and found: "case s (emp, getShiftDate tz now) of None \<Rightarrow> True
                | Some a \<Rightarrow> reasonsValid a \<and> employee a = emp \<and> date a = getShiftDate tz now"
  shows "\<exists>s' r. handle tz m NightRoutes s CheckIn emp ip now = Inr s' \<and>
           s' (emp, getShiftDate tz now) = Some r \<and>
           checkIn r = Some \<lparr>time = now, ipAddress = ip\<rparr> \<and>
           status r = nightClassifyCheckIn tz now"
proof (cases "s (emp, getShiftDate tz now)")
  case None
  then show ?thesis
    using permitted m nightClassify_status_ok [of m tz now]
    by (auto simp add: handle_def nightCheckIn_def hasCheckIn_def writeCheckIn_def commit_def
        create_def validate_def reasonsValid_def newAttendance_def Let_def
        preSave_no_checkOut simp del: statusEnum.simps)
next
  case (Some a)
  then show ?thesis
    using permitted m fresh found nightClassify_status_ok [of m tz now]
    by (auto simp add: handle_def nightCheckIn_def hasCheckIn_def writeCheckIn_def commit_def
        save_def validate_def reasonsValid_def Let_def simp del: statusEnum.simps)
qed

text \<open>
  C2. Night-shift check-in. For every \<open>now\<close> whose local hour is in [4, 18) the check-in is
  rejected with \<open>OutsideWindow\<close>, whatever the store holds. For every other \<open>now\<close>, on a
  night-shift model and without an earlier check-in for the shift-date, the record written
  carries the status \<open>Early\<close> when the local hour is 18, \<open>Present\<close> when the local hour is
  19 and the minute is at most 5, and \<open>Late\<close> otherwise (after 19:05, and after midnight
  before 4:00).
\<close>

theorem night_checkIn_window_and_status:
  "(4 \<le> getHours tz now \<and> getHours tz now < 18 \<longrightarrow>
      handle tz m NightRoutes s CheckIn emp ip now = Inl OutsideWindow) \<and>
   ((getHours tz now < 4 \<or> 18 \<le> getHours tz now) \<and> m \<noteq> DayModel \<and>
    \<not> hasCheckIn (s (emp, getShiftDate tz now)) \<and>
    (case s (emp, getShiftDate tz now) of None \<Rightarrow> True
     | Some a \<Rightarrow> reasonsValid a \<and> employee a = emp \<and> date a = getShiftDate tz now) \<longrightarrow>
      (\<exists>s' r. handle tz m NightRoutes s CheckIn emp ip now = Inr s' \<and>
         s' (emp, getShiftDate tz now) = Some r \<and>
         checkIn r = Some \<lparr>time = now, ipAddress = ip\<rparr> \<and>
         status r =
           (if 18 \<le> getHours tz now \<and> getHours tz now < 19 then Early
            else if getHours tz now = 19 \<and> getMinutes tz now \<le> 5 then Present
            else Late)))"
  using nightCheckIn_deadzone [of tz now m s emp ip]
    nightCheckIn_permitted [of tz now m s emp ip]
  unfolding nightClassifyCheckIn_cases by blast

theorem night_checkIn_window_and_status_witness:
  "handle 0 Night405 NightRoutes Map.empty CheckIn 1 ''10.0.0.1'' 1710046800000 = Inl OutsideWindow \<and>
   (\<exists>s' r. handle 0 Night405 NightRoutes Map.empty CheckIn 1 ''10.0.0.1'' 1710097380000 = Inr s' \<and>
      s' (1, 1710028800000) = Some r \<and> status r = Present) \<and>
   (\<exists>s' r. handle 0 Night400 NightRoutes Map.empty CheckIn 1 ''10.0.0.1'' 1710095400000 = Inr s' \<and>
      s' (1, 1710028800000) = Some r \<and> status r = Early) \<and>
   (\<exists>s' r. handle 0 Night405 NightRoutes Map.empty CheckIn 1 ''10.0.0.1'' 1710036000000 = Inr s' \<and>
      s' (1, 1709942400000) = Some r \<and> status r = Late)"
proof -
  have h: "getHours 0 1710046800000 = 5" "getHours 0 1710097380000 = 19"
    "getMinutes 0 1710097380000 = 3" "getHours 0 1710095400000 = 18"
    "getHours 0 1710036000000 = 2"
    by (simp_all add: getHours_def getMinutes_def)
  have d: "getShiftDate 0 1710097380000 = 1710028800000"
    "getShiftDate 0 1710095400000 = 1710028800000"
    "getShiftDate 0 1710036000000 = 1709942400000"
    by (simp_all add: getShiftDate_def getHours_def setDateRel_def setHours_def localDay_def)
  show ?thesis
    using night_checkIn_window_and_status [of 0 1710046800000 Night405 Map.empty 1 "''10.0.0.1''"]
      night_checkIn_window_and_status [of 0 1710097380000 Night405 Map.empty 1 "''10.0.0.1''"]
      night_checkIn_window_and_status [of 0 1710095400000 Night400 Map.empty 1 "''10.0.0.1''"]
      night_checkIn_window_and_status [of 0 1710036000000 Night405 Map.empty 1 "''10.0.0.1''"]
    by (simp add: h d hasCheckIn_def) blast
qed

section \<open>Claim C3\<close>

lemma gt_setHours: "setHours tz t h m 0 0 < t \<longleftrightarrow> hm h m < timeOfDay tz t"
  using le_setHours [of t tz h m] by linarith

lemma ge_setHours: "setHours tz t h m 0 0 \<le> t \<longleftrightarrow> hm h m \<le> timeOfDay tz t"
  using less_setHours [of t tz h m] by linarith

lemma nightClassifyCheckOut_cases:
  "nightClassifyCheckOut tz now prior =
     (if getHours tz now < 12
      then (if timeOfDay tz now < hm 3 55 then EarlyClockout
            else if timeOfDay tz now \<le> hm 4 5 then ClockedOut
            else Overtime)
      else prior)"
proof -
  have "hm 4 0 \<le> hm 4 5" "hm 3 55 \<le> hm 4 0" by (simp_all add: hm_def)
  then show ?thesis
    by (auto simp add: nightClassifyCheckOut_def Let_def less_setHours le_setHours
        gt_setHours ge_setHours)
qed

text \<open>
  What the night-shift check-out does on any model: when the schema accepts the status
  the handler assigns, the record is saved with it and with the check-out time; when it
  does not, the save fails validation and the handler answers with its server error.
\<close>

lemma nightCheckOut_saved:
  assumes found: "s (emp, getShiftDate tz now) = Some a"
    and keyed: "employee a = emp" "date a = getShiftDate tz now"
    and cin: "checkIn a \<noteq> None" and cout: "checkOut a = None"
    and valid: "reasonsValid a"
    and accepted: "nightClassifyCheckOut tz now (status a) \<in> set (statusEnum m)"
  shows "\<exists>s' r. handle tz m NightRoutes s CheckOut emp ip now = Inr s' \<and>
           s' (emp, getShiftDate tz now) = Some r \<and>
           checkOut r = Some \<lparr>time = now, ipAddress = ip\<rparr> \<and>
           status r = nightClassifyCheckOut tz now (status a)"
  using assms
  by (auto simp add: handle_def nightCheckOut_def checkOutGuards_def commit_def save_def
      validate_def reasonsValid_def Let_def simp del: statusEnum.simps)

lemma nightCheckOut_not_saved:
  assumes found: "s (emp, getShiftDate tz now) = Some a"
    and cin: "checkIn a \<noteq> None" and cout: "checkOut a = None"
    and refused: "nightClassifyCheckOut tz now (status a) \<notin> set (statusEnum m)"
  shows "handle tz m NightRoutes s CheckOut emp ip now = Inl (ServerError ValidationError)"
  using assms
  by (auto simp add: handle_def nightCheckOut_def checkOutGuards_def commit_def save_def
      validate_def Let_def simp del: statusEnum.simps)

lemma night405_checkOut_status:
  assumes "s (emp, getShiftDate tz now) = Some a"
    and "employee a = emp" and "date a = getShiftDate tz now"
    and "checkIn a \<noteq> None" and "checkOut a = None"
    and "validate Night405 a"
  shows "\<exists>s' r. handle tz Night405 NightRoutes s CheckOut emp ip now = Inr s' \<and>
           s' (emp, getShiftDate tz now) = Some r \<and>
           checkOut r = Some \<lparr>time = now, ipAddress = ip\<rparr> \<and>
           (getHours tz now < 12 \<and> timeOfDay tz now < hm 3 55 \<longrightarrow> status r = EarlyClockout) \<and>
           (getHours tz now < 12 \<and> hm 3 55 \<le> timeOfDay tz now \<and> timeOfDay tz now < hm 4 0 \<longrightarrow>
              status r = ClockedOut) \<and>
           (getHours tz now < 12 \<and> hm 4 0 \<le> timeOfDay tz now \<and> timeOfDay tz now \<le> hm 4 5 \<longrightarrow>
              status r = ClockedOut) \<and>
           (getHours tz now < 12 \<and> hm 4 5 < timeOfDay tz now \<longrightarrow> status r = Overtime) \<and>
           (12 \<le> getHours tz now \<longrightarrow> status r = status a)"
proof -
  have order: "hm 3 55 < hm 4 0" "hm 4 0 < hm 4 5" by (simp_all add: hm_def)
  have "nightClassifyCheckOut tz now (status a) \<in> set (statusEnum Night405)"
    by (cases "nightClassifyCheckOut tz now (status a)") simp_all
  then obtain s' r where sr: "handle tz Night405 NightRoutes s CheckOut emp ip now = Inr s'"
      "s' (emp, getShiftDate tz now) = Some r"
      "checkOut r = Some \<lparr>time = now, ipAddress = ip\<rparr>"
      "status r = nightClassifyCheckOut tz now (status a)"
    using nightCheckOut_saved [of s emp tz now a Night405 ip] assms
    by (auto simp add: validate_def simp del: statusEnum.simps)
  from sr(4) order have
    "(getHours tz now < 12 \<and> timeOfDay tz now < hm 3 55 \<longrightarrow> status r = EarlyClockout) \<and>
     (getHours tz now < 12 \<and> hm 3 55 \<le> timeOfDay tz now \<and> timeOfDay tz now < hm 4 0 \<longrightarrow>
        status r = ClockedOut) \<and>
     (getHours tz now < 12 \<and> hm 4 0 \<le> timeOfDay tz now \<and> timeOfDay tz now \<le> hm 4 5 \<longrightarrow>
        status r = ClockedOut) \<and>
     (getHours tz now < 12 \<and> hm 4 5 < timeOfDay tz now \<longrightarrow> status r = Overtime) \<and>
     (12 \<le> getHours tz now \<longrightarrow> status r = status a)"
    unfolding nightClassifyCheckOut_cases by auto
  with sr(1,2,3) show ?thesis by blast
qed

lemma night400_checkOut_early:
  assumes "s (emp, getShiftDate tz now) = Some a"
    and "checkIn a \<noteq> None" and "checkOut a = None"
    and "getHours tz now < 12" and "timeOfDay tz now < hm 3 55"
  shows "handle tz Night400 NightRoutes s CheckOut emp ip now = Inl (ServerError ValidationError)"
proof -
  have "nightClassifyCheckOut tz now (status a) = EarlyClockout"
    using assms(4,5) by (simp add: nightClassifyCheckOut_cases)
  then have "nightClassifyCheckOut tz now (status a) \<notin> set (statusEnum Night400)"
    by simp
  with nightCheckOut_not_saved [of s emp tz now a Night400 ip] assms(1,2,3) show ?thesis
    by blast
qed

lemmas clock_defs =
  getShiftDate_def getHours_def getMinutes_def setDateRel_def setHours_def localDay_def
  timeOfDay_def mkDate_def hm_def

lemmas handler_defs =
  handle_def commit_def save_def create_def validate_def reasonsValid_def
  hasCheckIn_def writeCheckIn_def newAttendance_def startBreakOn_def endBreakOn_def
  checkOutGuards_def pushBreak_def newBreak_def push_def closeBreak_def isOpen_def reasonEnum_def
  nightCheckIn_def nightCheckOut_def nightStartBreak_def nightEndBreak_def
  nightClassifyCheckIn_def nightClassifyCheckOut_def
  dayCheckIn_def dayCheckOut_def dayStartBreak_def dayEndBreak_def
  dayClassifyCheckIn_def dayClassifyCheckOut_def

lemmas hook_defs =
  preSave.simps preSaveDay_def preSaveNight_def diffHours_def breakHours_def
  totalBreakMinutes_def

lemma days_2024_03_11: "daysFromCivil 2024 3 11 = 19793"
  by code_simp

lemmas days_simps = days_2024_03_09 days_2024_03_10 days_2024_03_11


section \<open>The invariant of the store\<close>

lemma commit_Inr:
  assumes "commit tz m s (asSave p) = Inr s'"
  shows "validate m (recOf p) \<and>
         s' = s((employee (recOf p), date (recOf p)) \<mapsto> preSave tz m (recOf p))"
  using assms
  by (cases p) (auto simp add: commit_def create_def save_def recOf_def asSave_def
      split: if_splits option.splits)

lemma commit_dom:
  assumes "commit tz m s p = Inr s'" and "s k \<noteq> None"
  shows "s' k \<noteq> None"
  using assms
  by (cases p) (auto simp add: commit_def create_def save_def push_def Let_def
      split: if_splits option.splits)

lemma recordInv_preSave [simp]: "recordInv (preSave tz m r) = recordInv r"
  by (simp add: recordInv_def openCount_def)

lemma validate_preSave [simp]: "validate m' (preSave tz m r) = validate m' r"
  by (simp add: validate_def reasonsValid_def)

lemma openCount_pushBreak: "openCount (pushBreak a now rsn) = Suc (openCount a)"
  by (simp add: openCount_def pushBreak_def newBreak_def isOpen_def)

lemma find_isOpen_None: "find isOpen (breaks a) = None \<longleftrightarrow> openCount a = 0"
  by (auto simp add: openCount_def find_None_iff filter_empty_conv)

lemma findIndex_Some:
  "findIndex P xs = Some i \<Longrightarrow> i < length xs \<and> P (xs ! i)"
proof (induction xs arbitrary: i)
  case Nil
  then show ?case by simp
next
  case (Cons x xs)
  then show ?case by (auto split: if_splits)
qed

lemma findIndex_None: "findIndex P xs = None \<longleftrightarrow> filter P xs = []"
  by (induction xs) auto

lemma filter_update_closed:
  assumes "i < length xs" and "P (xs ! i)" and "\<not> P y"
  shows "Suc (length (filter P (xs[i := y]))) = length (filter P xs)"
  using assms
proof (induction xs arbitrary: i)
  case Nil
  then show ?case by simp
next
  case (Cons x xs)
  show ?case
  proof (cases i)
    case 0
    with Cons.prems show ?thesis by simp
  next
    case (Suc j)
    with Cons.prems Cons.IH [of j] show ?thesis by simp
  qed
qed

lemma openCount_closeBreak:
  assumes "findIndex isOpen (breaks a) = Some i"
  shows "Suc (openCount (closeBreak a i now)) = openCount a"
proof -
  from findIndex_Some [OF assms] have i: "i < length (breaks a)" "isOpen (breaks a ! i)"
    by simp_all
  have "\<not> isOpen ((breaks a ! i)\<lparr>endTime := Some now,
      duration := Some ((now - startTime (breaks a ! i)) div (1000 * 60))\<rparr>)"
    by (simp add: isOpen_def)
  from filter_update_closed [OF i this] show ?thesis
    by (simp add: openCount_def closeBreak_def Let_def)
qed

lemma startBreakOn_Inr:
  assumes "startBreakOn found now rsn = Inr p"
  shows "\<exists>a. found = Some a \<and> p = Push (pushBreak a now rsn) (newBreak now rsn) \<and>
           checkIn a \<noteq> None \<and>
           checkOut a = None \<and> openCount a = 0"
  using assms
  by (auto simp add: startBreakOn_def find_isOpen_None [symmetric] split: option.splits if_splits)

lemma endBreakOn_Inr:
  assumes "endBreakOn found now = Inr p"
  shows "\<exists>a i. found = Some a \<and> p = Save (closeBreak a i now) \<and> checkIn a \<noteq> None \<and>
           findIndex isOpen (breaks a) = Some i"
  using assms
  by (auto simp add: endBreakOn_def split: option.splits if_splits)

lemma checkOutGuards_Inr:
  assumes "checkOutGuards found = Inr a"
  shows "found = Some a \<and> checkIn a \<noteq> None \<and> checkOut a = None"
  using assms
  by (auto simp add: checkOutGuards_def split: option.splits if_splits)

lemma pushBreak_fields [simp]:
  "employee (pushBreak a now rsn) = employee a" "date (pushBreak a now rsn) = date a"
  "checkIn (pushBreak a now rsn) = checkIn a" "checkOut (pushBreak a now rsn) = checkOut a"
  "status (pushBreak a now rsn) = status a"
  by (simp_all add: pushBreak_def)

lemma closeBreak_fields [simp]:
  "employee (closeBreak a i now) = employee a" "date (closeBreak a i now) = date a"
  "checkIn (closeBreak a i now) = checkIn a" "checkOut (closeBreak a i now) = checkOut a"
  "status (closeBreak a i now) = status a"
  by (simp_all add: closeBreak_def Let_def)

lemma writeCheckIn_record:
  assumes "case found of None \<Rightarrow> True | Some a \<Rightarrow> (employee a, date a) = (emp, d) \<and> openCount a \<le> 1"
  shows "(employee (recOf (writeCheckIn m found emp d ci st)), date (recOf (writeCheckIn m found emp d ci st))) = (emp, d)
     \<and> recordInv (recOf (writeCheckIn m found emp d ci st))"
  using assms
  by (cases found) (simp_all add: writeCheckIn_def recOf_def newAttendance_def recordInv_def openCount_def)

lemma decide_record:
  assumes inv: "storeInv m s" and d: "decide tz m rt s rq emp ip now = Inr p"
  shows "(employee (recOf p), date (recOf p)) = (emp, shiftKey tz rt now) \<and> recordInv (recOf p)"
proof -
  let ?k = "(emp, shiftKey tz rt now)"
  have found: "case s ?k of None \<Rightarrow> True
      | Some a \<Rightarrow> (employee a, date a) = ?k \<and> openCount a \<le> 1"
    using inv by (auto simp add: storeInv_def recordInv_def split: option.splits)
  have k: "\<And>a. s ?k = Some a \<Longrightarrow> (employee a, date a) = ?k \<and> openCount a \<le> 1"
    using found by (simp split: option.splits)
  show ?thesis
  proof (cases rq)
    case CheckIn
    show ?thesis
    proof (cases rt)
      case DayRoutes
      from found have f: "case s (emp, setHours tz now 0 0 0 0) of None \<Rightarrow> True
          | Some a \<Rightarrow> (employee a, date a) = (emp, setHours tz now 0 0 0 0) \<and> openCount a \<le> 1"
        by (auto simp add: shiftKey_def DayRoutes split: option.splits)
      from d CheckIn DayRoutes
      have "p = writeCheckIn m (s (emp, setHours tz now 0 0 0 0)) emp (setHours tz now 0 0 0 0)
                  \<lparr>time = now, ipAddress = ip\<rparr> (dayClassifyCheckIn tz now)"
        by (auto simp add: dayCheckIn_def Let_def split: if_splits)
      with writeCheckIn_record [OF f] show ?thesis
        by (simp add: shiftKey_def DayRoutes)
    next
      case NightRoutes
      from found have f: "case s (emp, getShiftDate tz now) of None \<Rightarrow> True
          | Some a \<Rightarrow> (employee a, date a) = (emp, getShiftDate tz now) \<and> openCount a \<le> 1"
        by (auto simp add: shiftKey_def NightRoutes split: option.splits)
      from d CheckIn NightRoutes
      have "p = writeCheckIn m (s (emp, getShiftDate tz now)) emp (getShiftDate tz now)
                  \<lparr>time = now, ipAddress = ip\<rparr> (nightClassifyCheckIn tz now)"
        by (auto simp add: nightCheckIn_def Let_def split: if_splits)
      with writeCheckIn_record [OF f] show ?thesis
        by (simp add: shiftKey_def NightRoutes)
    qed
  next
    case CheckOut
    with d k show ?thesis
      by (cases rt)
        (auto simp add: dayCheckOut_def nightCheckOut_def shiftKey_def Let_def recOf_def
          recordInv_def openCount_def dest!: checkOutGuards_Inr split: sum.splits)
  next
    case (StartBreak rsn)
    with d k show ?thesis
      by (cases rt)
        (auto simp add: dayStartBreak_def nightStartBreak_def shiftKey_def recOf_def
          recordInv_def openCount_pushBreak dest!: startBreakOn_Inr)
  next
    case EndBreak
    with d k show ?thesis
      by (cases rt)
        (auto simp add: dayEndBreak_def nightEndBreak_def shiftKey_def recOf_def
          recordInv_def dest!: endBreakOn_Inr dest: openCount_closeBreak [where now = now])
  qed
qed

lemma push_as_save:
  assumes "s (employee a, date a) = Some a" and "checkOut a = None"
  shows "push tz m s (pushBreak a now rsn) (newBreak now rsn) = save tz m s (pushBreak a now rsn)"
proof -
  have "preSave tz m (pushBreak a now rsn) = pushBreak a now rsn"
    using assms(2) by (simp add: preSave_no_checkOut)
  with assms(1) show ?thesis
    by (simp add: push_def save_def pushBreak_def)
qed

lemma decide_commit:
  assumes inv: "storeInv m s" and d: "decide tz m rt s rq emp ip now = Inr p"
  shows "commit tz m s p = commit tz m s (asSave p)"
proof (cases rq)
  case CheckIn
  with d have "asSave p = p"
    by (cases rt)
      (auto simp add: dayCheckIn_def nightCheckIn_def Let_def writeCheckIn_def asSave_def
        split: if_splits option.splits)
  then show ?thesis by simp
next
  case CheckOut
  with d have "asSave p = p"
    by (cases rt)
      (auto simp add: dayCheckOut_def nightCheckOut_def Let_def asSave_def split: sum.splits)
  then show ?thesis by simp
next
  case (StartBreak rsn)
  with d obtain a where a: "s (emp, shiftKey tz rt now) = Some a"
      "p = Push (pushBreak a now rsn) (newBreak now rsn)" "checkOut a = None"
    by (cases rt)
      (auto simp add: dayStartBreak_def nightStartBreak_def shiftKey_def dest!: startBreakOn_Inr)
  from inv a(1) have "(employee a, date a) = (emp, shiftKey tz rt now)"
    unfolding storeInv_def by blast
  with a(1) have "s (employee a, date a) = Some a" by simp
  with push_as_save [of s a tz m now rsn] a(2,3) show ?thesis
    by (simp add: commit_def asSave_def)
next
  case EndBreak
  with d have "asSave p = p"
    by (cases rt)
      (auto simp add: dayEndBreak_def nightEndBreak_def asSave_def dest!: endBreakOn_Inr)
  then show ?thesis by simp
qed

lemma handle_storeInv:
  assumes inv: "storeInv m s" and h: "handle tz m rt s rq emp ip now = Inr s'"
  shows "storeInv m s'"
proof -
  from h obtain p where p: "decide tz m rt s rq emp ip now = Inr p" "commit tz m s p = Inr s'"
    by (auto simp add: handle_def split: sum.splits)
  from decide_commit [OF inv p(1)] p(2) have c: "commit tz m s (asSave p) = Inr s'"
    by simp
  from decide_record [OF inv p(1)] commit_Inr [OF c] inv show ?thesis
    by (auto simp add: storeInv_def)
qed

lemma handle_dom:
  assumes "handle tz m rt s rq emp ip now = Inr s'" and "s k \<noteq> None"
  shows "s' k \<noteq> None"
  using assms by (auto simp add: handle_def split: sum.splits dest: commit_dom)

lemma run_dom: "s k \<noteq> None \<Longrightarrow> run tz m rt s reqs k \<noteq> None"
proof (induction reqs arbitrary: s)
  case Nil
  then show ?case by simp
next
  case (Cons c reqs)
  obtain rq emp ip now where c: "c = (rq, emp, ip, now)" by (cases c) auto
  show ?case
  proof (cases "handle tz m rt s rq emp ip now")
    case (Inl e)
    with Cons c show ?thesis by simp
  next
    case (Inr s')
    with Cons.prems have "s' k \<noteq> None" by (auto dest: handle_dom)
    with Cons.IH Inr c show ?thesis by simp
  qed
qed

lemma run_storeInv: "storeInv m s \<Longrightarrow> storeInv m (run tz m rt s reqs)"
proof (induction reqs arbitrary: s)
  case Nil
  then show ?case by simp
next
  case (Cons c reqs)
  obtain rq emp ip now where c: "c = (rq, emp, ip, now)" by (cases c) auto
  show ?case
  proof (cases "handle tz m rt s rq emp ip now")
    case (Inl e)
    with Cons c show ?thesis by simp
  next
    case (Inr s')
    with Cons.prems have "storeInv m s'" by (auto dest: handle_storeInv)
    with Cons.IH Inr c show ?thesis by simp
  qed
qed

lemma storeInv_empty: "storeInv m Map.empty"
  by (simp add: storeInv_def)

section \<open>Claim C5\<close>

lemma scenarioB_saved:
  "run tz Night405 NightRoutes Map.empty (scenarioB tz) (1, mkDate tz 2024 3 9 0 0) =
     Some (scenarioBRecord tz)"
  by (simp add: scenarioB_def scenarioBRecord_def days_simps clock_defs handler_defs hook_defs
      Let_def)

lemma preSaveNight_result:
  assumes "checkIn r = Some ci" and "checkOut r = Some co"
  shows "workingHours (preSaveNight tz bh bm r) = max 0 (diffHours ci co - breakHours r)"
    and "overtime (preSaveNight tz bh bm r) =
      (if hm bh bm < timeOfDay tz (time co) \<and> getHours tz (time co) < 12
       then real_of_int (time co - setHours tz (time co) bh bm 0 0) / 3600000
       else 0)"
  using assms by (simp_all add: preSaveNight_def Let_def gt_setHours)

text \<open>
  C5. The Policy B scenario: a night-shift record with check-in at 19:00, check-out at 04:10
  the next calendar day and one closed break of 30 minutes is saved with 55/6 elapsed hours
  (9.1667 to four decimals), 1/2 break hours, 26/3 working hours (8.6667) and an overtime of
  1/12 hours (0.0833), the time from the 04:05 boundary to 04:10. In general, on a save with
  both times set, the night-shift hooks set overtime to (checkOut.time - boundary) / 3600000
  when the check-out's local time is after the boundary (04:05, or 04:00 in the other
  variant) and its local hour is below 12, and to 0 otherwise. Numbers are exact reals here.
\<close>

theorem policyB_overtime:
  "run tz Night405 NightRoutes Map.empty (scenarioB tz) (1, mkDate tz 2024 3 9 0 0) =
     Some (scenarioBRecord tz) \<and>
   diffHours \<lparr>time = mkDate tz 2024 3 9 19 0, ipAddress = ''10.0.0.1''\<rparr>
             \<lparr>time = mkDate tz 2024 3 10 4 10, ipAddress = ''10.0.0.1''\<rparr> = 55 / 6 \<and>
   \<bar>55 / 6 - 9.1667\<bar> < (0.00005 :: real) \<and>
   breakHours (scenarioBRecord tz) = 1 / 2 \<and>
   workingHours (scenarioBRecord tz) = 55 / 6 - 1 / 2 \<and>
   \<bar>workingHours (scenarioBRecord tz) - 8.6667\<bar> < 0.00005 \<and>
   overtime (scenarioBRecord tz) =
     real_of_int (mkDate tz 2024 3 10 4 10 - mkDate tz 2024 3 10 4 5) / 3600000 \<and>
   \<bar>overtime (scenarioBRecord tz) - 0.0833\<bar> < 0.00005 \<and>
   (checkIn r = Some ci \<and> checkOut r = Some co \<longrightarrow>
      workingHours (preSave z Night405 r) = max 0 (diffHours ci co - breakHours r) \<and>
      overtime (preSave z Night405 r) =
        (if hm 4 5 < timeOfDay z (time co) \<and> getHours z (time co) < 12
         then real_of_int (time co - setHours z (time co) 4 5 0 0) / 3600000 else 0) \<and>
      workingHours (preSave z Night400 r) = max 0 (diffHours ci co - breakHours r) \<and>
      overtime (preSave z Night400 r) =
        (if hm 4 0 < timeOfDay z (time co) \<and> getHours z (time co) < 12
         then real_of_int (time co - setHours z (time co) 4 0 0 0) / 3600000 else 0))"
proof -
  have numbers:
    "diffHours \<lparr>time = mkDate tz 2024 3 9 19 0, ipAddress = ''10.0.0.1''\<rparr>
               \<lparr>time = mkDate tz 2024 3 10 4 10, ipAddress = ''10.0.0.1''\<rparr> = 55 / 6"
    "breakHours (scenarioBRecord tz) = 1 / 2"
    "workingHours (scenarioBRecord tz) = 55 / 6 - 1 / 2"
    "overtime (scenarioBRecord tz) =
       real_of_int (mkDate tz 2024 3 10 4 10 - mkDate tz 2024 3 10 4 5) / 3600000"
    by (simp_all add: scenarioBRecord_def diffHours_def breakHours_def totalBreakMinutes_def
        mkDate_def hm_def days_simps)
  have rounded: "\<bar>55 / 6 - 9.1667\<bar> < (0.00005 :: real)"
    "\<bar>workingHours (scenarioBRecord tz) - 8.6667\<bar> < 0.00005"
    "\<bar>overtime (scenarioBRecord tz) - 0.0833\<bar> < 0.00005"
    by (simp_all add: scenarioBRecord_def)
  have rule: "checkIn r = Some ci \<and> checkOut r = Some co \<longrightarrow>
      workingHours (preSave z Night405 r) = max 0 (diffHours ci co - breakHours r) \<and>
      overtime (preSave z Night405 r) =
        (if hm 4 5 < timeOfDay z (time co) \<and> getHours z (time co) < 12
         then real_of_int (time co - setHours z (time co) 4 5 0 0) / 3600000 else 0) \<and>
      workingHours (preSave z Night400 r) = max 0 (diffHours ci co - breakHours r) \<and>
      overtime (preSave z Night400 r) =
        (if hm 4 0 < timeOfDay z (time co) \<and> getHours z (time co) < 12
         then real_of_int (time co - setHours z (time co) 4 0 0 0) / 3600000 else 0)"
    using preSaveNight_result [of r ci co z]
    by (simp add: preSave.simps)
  from scenarioB_saved [of tz] numbers rounded rule show ?thesis
    by blast
qed

theorem policyB_overtime_witness:
  "overtime (preSave 0 Night405 (scenarioBRecord 0)) = 1 / 12 \<and>
   overtime (preSave 0 Night400 (scenarioBRecord 0)) = 1 / 6 \<and>
   workingHours (preSave 0 Night405 (scenarioBRecord 0)) = 26 / 3"
proof -
  let ?ci = "\<lparr>time = mkDate 0 2024 3 9 19 0, ipAddress = ''10.0.0.1''\<rparr>"
  let ?co = "\<lparr>time = mkDate 0 2024 3 10 4 10, ipAddress = ''10.0.0.1''\<rparr>"
  have io: "checkIn (scenarioBRecord 0) = Some ?ci \<and> checkOut (scenarioBRecord 0) = Some ?co"
    by (simp add: scenarioBRecord_def)
  have t: "mkDate 0 2024 3 10 4 10 = 1710043800000" "mkDate 0 2024 3 9 19 0 = 1710010800000"
    by (simp_all add: mkDate_def hm_def days_simps)
  have c: "timeOfDay 0 1710043800000 = 15000000" "getHours 0 1710043800000 = 4"
    "setHours 0 1710043800000 4 5 0 0 = 1710043500000"
    "setHours 0 1710043800000 4 0 0 0 = 1710043200000"
    by (simp_all add: timeOfDay_def getHours_def setHours_def localDay_def)
  have b: "breakHours (scenarioBRecord 0) = 1 / 2"
    by (simp add: scenarioBRecord_def breakHours_def totalBreakMinutes_def)
  show ?thesis
    using policyB_overtime [of 0 "scenarioBRecord 0" ?ci ?co 0] io
    by (simp add: t c b hm_def diffHours_def)
qed

section \<open>Claim C4\<close>

lemma preSaveDay_workingHours:
  assumes "checkIn r = Some ci" and "checkOut r = Some co"
  shows "workingHours (preSaveDay r) = max 0 (diffHours ci co - breakHours r)"
  using assms by (simp add: preSaveDay_def Let_def)

lemma preSaveDay_overtime:
  assumes "checkIn r = Some ci" and "checkOut r = Some co"
  shows "overtime (preSaveDay r) =
     (if max 0 (diffHours ci co - breakHours r) > 8
      then max 0 (diffHours ci co - breakHours r) - 8 else overtime r)"
  using assms by (auto simp add: preSaveDay_def Let_def max_def)

lemma preSaveDay_idem: "preSaveDay (preSaveDay r) = preSaveDay r"
  by (cases "checkIn r"; cases "checkOut r")
    (simp_all add: preSaveDay_def Let_def breakHours_def)

lemma preSaveNight_idem: "preSaveNight tz bh bm (preSaveNight tz bh bm r) = preSaveNight tz bh bm r"
  by (cases "checkIn r"; cases "checkOut r")
    (simp_all add: preSaveNight_def Let_def breakHours_def)

lemma scenarioA_saved:
  "run tz DayModel DayRoutes Map.empty (scenarioA tz) (1, mkDate tz 2024 3 11 0 0) =
     Some (scenarioARecord tz)"
  by (simp add: scenarioA_def scenarioARecord_def days_simps clock_defs handler_defs hook_defs
      Let_def)

text \<open>
  C4. On every save with both times set the day-shift hook recomputes workingHours as
  max(0, elapsed hours - break hours), and the claim has overtime recomputed as
  max(0, workingHours - 8). The hook assigns overtime only when workingHours exceeds 8, so
  a record whose working hours drop to 8 or below keeps the overtime of an earlier save:
  after check-in 07:03, break start 10:00, check-out 15:30 and break end 15:50 the stored
  record has workingHours 157/60 and overtime 9/20, where max(0, workingHours - 8) is 0.
\<close>

theorem dayModel_overtime_stale:
  "run tz DayModel DayRoutes Map.empty (scenarioA tz) (1, mkDate tz 2024 3 11 0 0) =
     Some (scenarioARecord tz) \<and>
   workingHours (scenarioARecord tz) = 157 / 60 \<and>
   overtime (scenarioARecord tz) = 9 / 20 \<and>
   max 0 (workingHours (scenarioARecord tz) - 8) = 0 \<and>
   preSave tz DayModel (scenarioARecord tz) = scenarioARecord tz"
proof -
  have "preSave tz DayModel (scenarioARecord tz) = scenarioARecord tz"
    by (simp add: scenarioARecord_def hook_defs mkDate_def hm_def days_simps)
  with scenarioA_saved [of tz] show ?thesis
    by (simp add: scenarioARecord_def)
qed

section \<open>Claim C6\<close>

text \<open>
  C6. Day-shift check-in: at or after 16:00 the attempt is rejected with \<open>OutsideWindow\<close>;
  the claim has a check-in before 07:00 saved with status 'early'. The handler classifies
  06:55 as \<open>Early\<close>, but the schema beside the day-shift routes has no 'early' in its enum:
  the create fails validation and the handler answers with its server error, nothing saved.
  Check-ins at 07:03 and 07:10 are saved as \<open>Present\<close> and \<open>Late\<close>, 16:01 is rejected.
\<close>

theorem day_checkIn_early_not_saved:
  "dayClassifyCheckIn tz (mkDate tz 2024 3 11 6 55) = Early \<and>
   handle tz DayModel DayRoutes Map.empty CheckIn 1 ''10.0.0.1'' (mkDate tz 2024 3 11 6 55) =
     Inl (ServerError ValidationError) \<and>
   run tz DayModel DayRoutes Map.empty [(CheckIn, 1, ''10.0.0.1'', mkDate tz 2024 3 11 6 55)] =
     Map.empty \<and>
   handle tz DayModel DayRoutes Map.empty CheckIn 1 ''10.0.0.1'' (mkDate tz 2024 3 11 7 3) =
     Inr (dayStore tz) \<and>
   handle tz DayModel DayRoutes Map.empty CheckIn 1 ''10.0.0.1'' (mkDate tz 2024 3 11 7 10) =
     Inr [(1, mkDate tz 2024 3 11 0 0) \<mapsto>
            newAttendance DayModel 1 (mkDate tz 2024 3 11 0 0)
              \<lparr>time = mkDate tz 2024 3 11 7 10, ipAddress = ''10.0.0.1''\<rparr> (Some Late)] \<and>
   handle tz DayModel DayRoutes Map.empty CheckIn 1 ''10.0.0.1'' (mkDate tz 2024 3 11 16 1) =
     Inl OutsideWindow"
  by (simp add: dayStore_def days_simps clock_defs handler_defs hook_defs Let_def)

section \<open>Claim C7\<close>

text \<open>
  C7. Day-shift check-out of a record checked in at 07:03: the claim has a check-out after
  16:05 saved with status 'overtime' and one in [16:00, 16:05] with 'clocked-out'. The
  handler assigns these statuses, but the schema beside the day-shift routes has neither
  in its enum: the save fails validation, the handler answers with its server error and
  the record keeps no check-out. A check-out before 16:00 is saved with the status
  unchanged and the check-out time recorded.
\<close>

theorem day_checkOut_overtime_not_saved:
  "dayClassifyCheckOut tz (mkDate tz 2024 3 11 16 10) Present = Overtime \<and>
   handle tz DayModel DayRoutes (dayStore tz) CheckOut 1 ''10.0.0.1'' (mkDate tz 2024 3 11 16 10) =
     Inl (ServerError ValidationError) \<and>
   dayClassifyCheckOut tz (mkDate tz 2024 3 11 16 3) Present = ClockedOut \<and>
   handle tz DayModel DayRoutes (dayStore tz) CheckOut 1 ''10.0.0.1'' (mkDate tz 2024 3 11 16 3) =
     Inl (ServerError ValidationError) \<and>
   run tz DayModel DayRoutes (dayStore tz)
     [(CheckOut, 1, ''10.0.0.1'', mkDate tz 2024 3 11 16 10)] = dayStore tz \<and>
   handle tz DayModel DayRoutes (dayStore tz) CheckOut 1 ''10.0.0.1'' (mkDate tz 2024 3 11 15 30) =
     Inr [(1, mkDate tz 2024 3 11 0 0) \<mapsto>
            \<lparr> employee = 1, date = mkDate tz 2024 3 11 0 0,
              checkIn = Some \<lparr>time = mkDate tz 2024 3 11 7 3, ipAddress = ''10.0.0.1''\<rparr>,
              checkOut = Some \<lparr>time = mkDate tz 2024 3 11 15 30, ipAddress = ''10.0.0.1''\<rparr>,
              status = Present, workingHours = 169 / 20, overtime = 9 / 20, breaks = [] \<rparr>]"
  by (simp add: dayStore_def days_simps clock_defs handler_defs hook_defs Let_def)

section \<open>Claim C10\<close>

lemma run_status_valid:
  assumes "run tz m rt Map.empty reqs k = Some r"
  shows "status r \<in> set (statusEnum m)"
  using run_storeInv [OF storeInv_empty, of m tz rt reqs] assms
  by (cases k) (auto simp add: storeInv_def validate_def)

text \<open>
  C10. The schema beside the day-shift routes restricts \<open>status\<close> to present, absent, late,
  half-day, on-leave, holiday and weekend, with default absent. A save or create of a
  record whose status is early, overtime, clocked-out or early-clockout fails validation;
  a save or create that succeeds stores a status of the seven; so does every run of either
  route module on this model. Of the three models, only the night-shift variants accept
  any of the four further statuses: the 4:05 variant all four, the 4:00 variant all but
  early-clockout.
\<close>

theorem dayModel_status_enum:
  "statusEnum DayModel = [Present, Absent, Late, HalfDay, OnLeave, Holiday, Weekend] \<and>
   statusDefault DayModel = Absent \<and>
   status (newAttendance DayModel emp d ci None) = Absent \<and>
   (status r \<in> {Early, Overtime, ClockedOut, EarlyClockout} \<longrightarrow>
      save tz DayModel s r = Inl ValidationError \<and> create tz DayModel s r = Inl ValidationError) \<and>
   (save tz DayModel s r = Inr s' \<or> create tz DayModel s r = Inr s' \<longrightarrow>
      (\<exists>r'. s' (employee r, date r) = Some r' \<and> status r' = status r \<and>
         status r' \<in> {Present, Absent, Late, HalfDay, OnLeave, Holiday, Weekend})) \<and>
   (run tz DayModel rt Map.empty reqs k = Some r' \<longrightarrow>
      status r' \<in> {Present, Absent, Late, HalfDay, OnLeave, Holiday, Weekend}) \<and>
   Early \<in> set (statusEnum Night405) \<and> Overtime \<in> set (statusEnum Night405) \<and>
   ClockedOut \<in> set (statusEnum Night405) \<and> EarlyClockout \<in> set (statusEnum Night405) \<and>
   Early \<in> set (statusEnum Night400) \<and> Overtime \<in> set (statusEnum Night400) \<and>
   ClockedOut \<in> set (statusEnum Night400) \<and> EarlyClockout \<notin> set (statusEnum Night400) \<and>
   (st \<in> {Early, Overtime, ClockedOut, EarlyClockout} \<and> st \<in> set (statusEnum m) \<longrightarrow>
      m = Night400 \<or> m = Night405)"
proof -
  have rejected: "status r \<in> {Early, Overtime, ClockedOut, EarlyClockout} \<longrightarrow>
      save tz DayModel s r = Inl ValidationError \<and> create tz DayModel s r = Inl ValidationError"
    by (auto simp add: save_def create_def validate_def)
  have stored: "save tz DayModel s r = Inr s' \<or> create tz DayModel s r = Inr s' \<longrightarrow>
      (\<exists>r'. s' (employee r, date r) = Some r' \<and> status r' = status r \<and>
         status r' \<in> {Present, Absent, Late, HalfDay, OnLeave, Holiday, Weekend})"
    by (auto simp add: save_def create_def validate_def split: if_splits option.splits)
  have reached: "run tz DayModel rt Map.empty reqs k = Some r' \<longrightarrow>
      status r' \<in> {Present, Absent, Late, HalfDay, OnLeave, Holiday, Weekend}"
    using run_status_valid [of tz DayModel rt reqs k r'] by auto
  have only_night: "st \<in> {Early, Overtime, ClockedOut, EarlyClockout} \<and> st \<in> set (statusEnum m) \<longrightarrow>
      m = Night400 \<or> m = Night405"
    by (cases m) auto
  from rejected stored reached only_night show ?thesis
    by (simp add: statusDefault_def newAttendance_def)
qed

theorem dayModel_status_enum_witness:
  "create 0 DayModel Map.empty
     (newAttendance DayModel 1 0 \<lparr>time = 0, ipAddress = ''10.0.0.1''\<rparr> (Some Early)) =
     Inl ValidationError \<and>
   status (scenarioARecord 0) \<in> {Present, Absent, Late, HalfDay, OnLeave, Holiday, Weekend} \<and>
   (\<exists>r'. dayStore 0 (1, mkDate 0 2024 3 11 0 0) = Some r' \<and> status r' = Present)"
proof -
  let ?early = "newAttendance DayModel 1 0 \<lparr>time = 0, ipAddress = ''10.0.0.1''\<rparr> (Some Early)"
  let ?present = "newAttendance DayModel 1 (mkDate 0 2024 3 11 0 0)
      \<lparr>time = mkDate 0 2024 3 11 7 3, ipAddress = ''10.0.0.1''\<rparr> (Some Present)"
  have e: "status ?early \<in> {Early, Overtime, ClockedOut, EarlyClockout}"
    by (simp add: newAttendance_def)
  have c: "create 0 DayModel Map.empty ?present = Inr (dayStore 0)"
    by (simp add: create_def validate_def reasonsValid_def newAttendance_def dayStore_def
        preSave_no_checkOut)
  have p: "employee ?present = 1" "date ?present = mkDate 0 2024 3 11 0 0" "status ?present = Present"
    by (simp_all add: newAttendance_def)
  have "create 0 DayModel Map.empty ?early = Inl ValidationError"
    using dayModel_status_enum [of 1 0 "\<lparr>time = 0, ipAddress = ''10.0.0.1''\<rparr>" ?early 0 Map.empty] e
    by blast
  moreover have "status (scenarioARecord 0) \<in> {Present, Absent, Late, HalfDay, OnLeave, Holiday, Weekend}"
    using dayModel_status_enum [where tz = 0 and rt = DayRoutes and reqs = "scenarioA 0"
        and k = "(1, mkDate 0 2024 3 11 0 0)" and r' = "scenarioARecord 0"]
      scenarioA_saved [of 0]
    by blast
  moreover have "\<exists>r'. dayStore 0 (1, mkDate 0 2024 3 11 0 0) = Some r' \<and> status r' = Present"
    using dayModel_status_enum [where tz = 0 and s = Map.empty and r = ?present
        and s' = "dayStore 0"] c
    unfolding p by blast
  ultimately show ?thesis by blast
qed

section \<open>Claim C8\<close>

lemma storeInv_atMostOneOpen: "storeInv m s \<Longrightarrow> atMostOneOpen s"
  unfolding storeInv_def atMostOneOpen_def recordInv_def by blast

lemma startBreak_rejections:
  "found = None \<Longrightarrow> startBreakOn found now rsn = Inl NotCheckedIn"
  "found = Some a \<Longrightarrow> checkIn a = None \<Longrightarrow> startBreakOn found now rsn = Inl NotCheckedIn"
  "found = Some a \<Longrightarrow> checkIn a \<noteq> None \<Longrightarrow> checkOut a \<noteq> None \<Longrightarrow>
     startBreakOn found now rsn = Inl BreakAfterCheckout"
  "found = Some a \<Longrightarrow> checkIn a \<noteq> None \<Longrightarrow> checkOut a = None \<Longrightarrow> 1 \<le> openCount a \<Longrightarrow>
     startBreakOn found now rsn = Inl BreakAlreadyOpen"
  using find_isOpen_None [of a]
  by (auto simp add: startBreakOn_def)

lemma endBreak_rejection:
  assumes "found = Some a" and "checkIn a \<noteq> None" and "openCount a = 0"
  shows "endBreakOn found now = Inl NoOpenBreak"
proof -
  have "findIndex isOpen (breaks a) = None"
    using assms(3) by (simp add: findIndex_None openCount_def)
  with assms(1,2) show ?thesis
    by (simp add: endBreakOn_def)
qed

lemma handle_StartBreak:
  "handle tz m rt s (StartBreak rsn) emp ip now =
     (case startBreakOn (s (emp, shiftKey tz rt now)) now rsn of
        Inl e \<Rightarrow> Inl e | Inr p \<Rightarrow> commit tz m s p)"
  by (cases rt) (simp_all add: handle_def dayStartBreak_def nightStartBreak_def shiftKey_def)

lemma handle_EndBreak:
  "handle tz m rt s EndBreak emp ip now =
     (case endBreakOn (s (emp, shiftKey tz rt now)) now of
        Inl e \<Rightarrow> Inl e | Inr p \<Rightarrow> commit tz m s p)"
  by (cases rt) (simp_all add: handle_def dayEndBreak_def nightEndBreak_def shiftKey_def)

text \<open>
  Requests served one after the other keep the ledger in order. In every store that a
  sequence of requests to either route module builds from the empty collection, no record
  has more than one break without an end time, and the next request leaves such a store.
  On a record found under the resolved shift-date, a break start is rejected with
  \<open>BreakAlreadyOpen\<close> when the record has an open break and no check-out, with
  \<open>BreakAfterCheckout\<close> when a check-out is recorded, and with \<open>NotCheckedIn\<close> when no record
  is found; a break end is rejected with \<open>NoOpenBreak\<close> when the record has no open break.
\<close>

lemma sequential_break_ledger:
  assumes "s = run tz m rt Map.empty reqs"
  shows "atMostOneOpen s \<and>
    (s k = Some r \<longrightarrow> openCount r \<le> 1) \<and>
    (handle tz m rt s rq emp' ip' now' = Inr s1 \<longrightarrow> atMostOneOpen s1) \<and>
    (s (emp, shiftKey tz rt now) = Some a \<and> checkOut a = None \<and> 1 \<le> openCount a \<longrightarrow>
       handle tz m rt s (StartBreak rsn) emp ip now = Inl BreakAlreadyOpen) \<and>
    (s (emp, shiftKey tz rt now) = Some a \<and> checkOut a \<noteq> None \<longrightarrow>
       handle tz m rt s (StartBreak rsn) emp ip now = Inl BreakAfterCheckout) \<and>
    (s (emp, shiftKey tz rt now) = None \<longrightarrow>
       handle tz m rt s (StartBreak rsn) emp ip now = Inl NotCheckedIn) \<and>
    (s (emp, shiftKey tz rt now) = Some a \<and> openCount a = 0 \<longrightarrow>
       handle tz m rt s EndBreak emp ip now = Inl NoOpenBreak)"
proof -
  have inv: "storeInv m s"
    unfolding assms by (rule run_storeInv [OF storeInv_empty])
  then have one: "atMostOneOpen s" by (rule storeInv_atMostOneOpen)
  have checkedIn: "\<And>key b. s key = Some b \<Longrightarrow> checkIn b \<noteq> None"
    using inv unfolding storeInv_def recordInv_def by blast
  have step: "handle tz m rt s rq emp' ip' now' = Inr s1 \<longrightarrow> atMostOneOpen s1"
    using handle_storeInv [OF inv, of tz rt rq emp' ip' now' s1] storeInv_atMostOneOpen [of m s1]
    by blast
  have "s k = Some r \<longrightarrow> openCount r \<le> 1"
    using one unfolding atMostOneOpen_def by blast
  moreover have "s (emp, shiftKey tz rt now) = Some a \<and> checkOut a = None \<and> 1 \<le> openCount a \<longrightarrow>
       handle tz m rt s (StartBreak rsn) emp ip now = Inl BreakAlreadyOpen"
    using checkedIn [of "(emp, shiftKey tz rt now)" a]
    by (auto simp add: handle_StartBreak startBreak_rejections(4))
  moreover have "s (emp, shiftKey tz rt now) = Some a \<and> checkOut a \<noteq> None \<longrightarrow>
       handle tz m rt s (StartBreak rsn) emp ip now = Inl BreakAfterCheckout"
    using checkedIn [of "(emp, shiftKey tz rt now)" a]
    by (auto simp add: handle_StartBreak startBreak_rejections(3))
  moreover have "s (emp, shiftKey tz rt now) = None \<longrightarrow>
       handle tz m rt s (StartBreak rsn) emp ip now = Inl NotCheckedIn"
    by (auto simp add: handle_StartBreak startBreak_rejections(1))
  moreover have "s (emp, shiftKey tz rt now) = Some a \<and> openCount a = 0 \<longrightarrow>
       handle tz m rt s EndBreak emp ip now = Inl NoOpenBreak"
    using checkedIn [of "(emp, shiftKey tz rt now)" a]
    by (auto simp add: handle_EndBreak endBreak_rejection)
  ultimately show ?thesis using one step by blast
qed

text \<open>
  The guards of a break start run in the order: no check-in, check-out recorded, open
  break. After check-in 07:03, break start 10:00 and check-out 15:30 the record has an
  open break, and a break start answers with the check-out error.
\<close>

lemma openAtCheckout_store:
  "run 0 DayModel DayRoutes Map.empty openAtCheckout =
     [(1, mkDate 0 2024 3 11 0 0) \<mapsto> openAtCheckoutRecord]"
  by (simp add: openAtCheckout_def openAtCheckoutRecord_def days_simps clock_defs handler_defs
      hook_defs Let_def)

lemma break_start_after_checkout:
  "run 0 DayModel DayRoutes Map.empty openAtCheckout (1, mkDate 0 2024 3 11 0 0) =
     Some openAtCheckoutRecord \<and>
   openCount openAtCheckoutRecord = 1 \<and>
   handle 0 DayModel DayRoutes (run 0 DayModel DayRoutes Map.empty openAtCheckout)
     (StartBreak None) 1 ''10.0.0.1'' (mkDate 0 2024 3 11 15 40) = Inl BreakAfterCheckout"
  unfolding openAtCheckout_store
  by (simp add: openAtCheckoutRecord_def openCount_def days_simps clock_defs handler_defs)

lemma nightStore_first:
  "handle 0 Night405 NightRoutes Map.empty CheckIn 1 ''10.0.0.1'' (mkDate 0 2024 3 9 19 0) =
     Inr nightStore"
  by (simp add: nightStore_def nightRecord_def days_simps clock_defs handler_defs hook_defs Let_def)

text \<open>
  C8. The claim has at most one break entry without an end time in a record at any time,
  and a break start on a record with an open break rejected with \<open>BreakAlreadyOpen\<close>. The
  guard of a break start reads the record and the push is saved later, with nothing that
  ties the two together: when two break starts of a checked-in employee both read the
  record before either saves, both pass the guard, both pushes are stored, and the record
  has two breaks without an end time. Served one after the other, the second of the same
  two requests is rejected with \<open>BreakAlreadyOpen\<close>. The same holds in both route modules.
\<close>

theorem overlapping_break_starts_two_open:
  "handle 0 Night405 NightRoutes Map.empty CheckIn 1 ''10.0.0.1'' (mkDate 0 2024 3 9 19 0) =
     Inr nightStore \<and>
   overlapped 0 Night405 NightRoutes nightStore
     (StartBreak (Some ''lunch''), 1, ''10.0.0.1'', mkDate 0 2024 3 9 23 0)
     (StartBreak None, 1, ''10.0.0.2'', mkDate 0 2024 3 9 23 0 + 400) =
     Inr [(1, 1709942400000) \<mapsto> twoOpenNight] \<and>
   openCount twoOpenNight = 2 \<and>
   run 0 Night405 NightRoutes nightStore
     [(StartBreak (Some ''lunch''), 1, ''10.0.0.1'', mkDate 0 2024 3 9 23 0),
      (StartBreak None, 1, ''10.0.0.2'', mkDate 0 2024 3 9 23 0 + 400)] =
     [(1, 1709942400000) \<mapsto> pushBreak nightRecord (mkDate 0 2024 3 9 23 0) (Some ''lunch'')] \<and>
   handle 0 Night405 NightRoutes
     [(1, 1709942400000) \<mapsto> pushBreak nightRecord (mkDate 0 2024 3 9 23 0) (Some ''lunch'')]
     (StartBreak None) 1 ''10.0.0.2'' (mkDate 0 2024 3 9 23 0 + 400) = Inl BreakAlreadyOpen \<and>
   handle 0 DayModel DayRoutes Map.empty CheckIn 1 ''10.0.0.1'' (mkDate 0 2024 3 11 7 3) =
     Inr (dayStore 0) \<and>
   overlapped 0 DayModel DayRoutes (dayStore 0)
     (StartBreak (Some ''lunch''), 1, ''10.0.0.1'', mkDate 0 2024 3 11 10 0)
     (StartBreak None, 1, ''10.0.0.2'', mkDate 0 2024 3 11 10 0 + 400) =
     Inr [(1, mkDate 0 2024 3 11 0 0) \<mapsto> twoOpenDay] \<and>
   openCount twoOpenDay = 2"
  by (simp add: twoOpenNight_def twoOpenDay_def nightStore_def nightRecord_def dayStore_def
      openCount_def days_simps clock_defs handler_defs hook_defs Let_def)

section \<open>Claim C9\<close>

lemma decide_CheckIn_fresh:
  assumes inv: "storeInv m s" and d: "decide tz m rt s CheckIn emp ip now = Inr p"
  shows "s (emp, shiftKey tz rt now) = None \<and> p = Create (recOf p)"
proof -
  have checkedIn: "\<And>b. s (emp, shiftKey tz rt now) = Some b \<Longrightarrow> checkIn b \<noteq> None"
    using inv unfolding storeInv_def recordInv_def by blast
  have none: "\<not> hasCheckIn (s (emp, shiftKey tz rt now)) \<Longrightarrow> s (emp, shiftKey tz rt now) = None"
    using checkedIn by (cases "s (emp, shiftKey tz rt now)") (auto simp add: hasCheckIn_def)
  from d have fresh: "\<not> hasCheckIn (s (emp, shiftKey tz rt now))"
    by (cases rt)
      (auto simp add: dayCheckIn_def nightCheckIn_def shiftKey_def Let_def split: if_splits)
  from none [OF fresh] d show ?thesis
    by (cases rt)
      (auto simp add: dayCheckIn_def nightCheckIn_def shiftKey_def Let_def writeCheckIn_def
        recOf_def split: if_splits)
qed

lemma commit_CheckIn_taken:
  assumes inv: "storeInv m s" and d: "decide tz m rt s CheckIn emp ip now = Inr p"
    and c: "commit tz m s p = Inr s1"
  shows "s1 (emp, shiftKey tz rt now) \<noteq> None \<and> hasCheckIn (s1 (emp, shiftKey tz rt now))"
proof -
  from decide_commit [OF inv d] c have "commit tz m s (asSave p) = Inr s1" by simp
  from decide_record [OF inv d] commit_Inr [OF this] show ?thesis
    by (auto simp add: hasCheckIn_def recordInv_def)
qed

lemma handle_CheckIn_stored:
  assumes inv: "storeInv m s" and h: "handle tz m rt s CheckIn emp ip now = Inr s1"
  shows "s1 (emp, shiftKey tz rt now) \<noteq> None"
proof -
  from h obtain p where p: "decide tz m rt s CheckIn emp ip now = Inr p" "commit tz m s p = Inr s1"
    by (auto simp add: handle_def split: sum.splits)
  from commit_CheckIn_taken [OF inv p] show ?thesis by simp
qed

lemma stored_stays_checkedIn:
  assumes inv: "storeInv m s1" and taken: "s1 k \<noteq> None"
  shows "hasCheckIn (run tz m rt s1 between k)"
proof -
  from run_dom [where s = s1 and k = k and tz = tz and m = m and rt = rt and reqs = between] taken
  obtain b where b: "run tz m rt s1 between k = Some b"
    by blast
  from run_storeInv [OF inv, of tz rt between] b have "checkIn b \<noteq> None"
    unfolding storeInv_def recordInv_def by blast
  with b show ?thesis by (simp add: hasCheckIn_def)
qed

lemma checkIn_again:
  assumes "hasCheckIn (s1 (emp, shiftKey tz rt now))"
    and "rt = DayRoutes \<or> getHours tz now < 4 \<or> 18 \<le> getHours tz now"
  shows "handle tz m rt s1 CheckIn emp ip now = Inl AlreadyCheckedIn"
  using assms
  by (cases rt) (auto simp add: handle_def dayCheckIn_def nightCheckIn_def shiftKey_def Let_def)

text \<open>
  C9, as amended. On a store built by the routes, when a check-in of an employee has
  succeeded, then after any further requests served one after the other, a check-in of
  the same employee that resolves to the same shift-date is rejected with
  \<open>AlreadyCheckedIn\<close> by the pre-check on the stored check-in time, at any instant in the
  day-shift module and at any instant outside the dead zone in the night-shift module;
  inside the dead zone [4, 18) the night-shift module rejects it with \<open>OutsideWindow\<close>
  before it looks the record up, whatever the store holds. When two check-ins for the same
  key have both passed the pre-check on the same store and the first create has been
  committed, the second create, whenever it is committed after that, is refused by the
  storage layer, and the handler reports that as its server error (status 500), a
  duplicate-key error when the document is valid, not as \<open>AlreadyCheckedIn\<close>.
\<close>

theorem second_checkIn_rejected:
  assumes "s = run tz m rt Map.empty reqs"
  shows
    "(handle tz m rt s CheckIn emp ip1 t1 = Inr s1 \<and> shiftKey tz rt t2 = shiftKey tz rt t1 \<and>
      (rt = DayRoutes \<or> getHours tz t2 < 4 \<or> 18 \<le> getHours tz t2) \<longrightarrow>
        handle tz m rt (run tz m rt s1 between) CheckIn emp ip2 t2 = Inl AlreadyCheckedIn) \<and>
     (rt = NightRoutes \<and> 4 \<le> getHours tz t2 \<and> getHours tz t2 < 18 \<longrightarrow>
        handle tz m rt s2 CheckIn emp ip2 t2 = Inl OutsideWindow) \<and>
     (decide tz m rt s CheckIn emp ip1 t1 = Inr p1 \<and> decide tz m rt s CheckIn emp ip2 t2 = Inr p2 \<and>
      shiftKey tz rt t2 = shiftKey tz rt t1 \<and> commit tz m s p1 = Inr s1 \<longrightarrow>
        commit tz m (run tz m rt s1 between) p2 =
          Inl (ServerError (if validate m (recOf p2) then DuplicateKey else ValidationError)))"
proof -
  have inv: "storeInv m s"
    unfolding assms by (rule run_storeInv [OF storeInv_empty])
  have again: "handle tz m rt s CheckIn emp ip1 t1 = Inr s1 \<and> shiftKey tz rt t2 = shiftKey tz rt t1 \<and>
      (rt = DayRoutes \<or> getHours tz t2 < 4 \<or> 18 \<le> getHours tz t2) \<longrightarrow>
        handle tz m rt (run tz m rt s1 between) CheckIn emp ip2 t2 = Inl AlreadyCheckedIn"
  proof (intro impI, elim conjE)
    assume h: "handle tz m rt s CheckIn emp ip1 t1 = Inr s1"
      and key: "shiftKey tz rt t2 = shiftKey tz rt t1"
      and permitted: "rt = DayRoutes \<or> getHours tz t2 < 4 \<or> 18 \<le> getHours tz t2"
    from handle_storeInv [OF inv h] have inv1: "storeInv m s1" .
    from handle_CheckIn_stored [OF inv h] key
    have "s1 (emp, shiftKey tz rt t2) \<noteq> None" by simp
    with stored_stays_checkedIn [where m = m and ?s1.0 = s1 and k = "(emp, shiftKey tz rt t2)"
        and tz = tz and rt = rt and between = between] inv1
    have "hasCheckIn (run tz m rt s1 between (emp, shiftKey tz rt t2))" by blast
    with checkIn_again [where ?s1.0 = "run tz m rt s1 between" and emp = emp and tz = tz
        and rt = rt and now = t2 and m = m and ip = ip2] permitted
    show "handle tz m rt (run tz m rt s1 between) CheckIn emp ip2 t2 = Inl AlreadyCheckedIn"
      by blast
  qed
  have dead: "rt = NightRoutes \<and> 4 \<le> getHours tz t2 \<and> getHours tz t2 < 18 \<longrightarrow>
        handle tz m rt s2 CheckIn emp ip2 t2 = Inl OutsideWindow"
    by (auto simp add: handle_def nightCheckIn_def)
  have race: "decide tz m rt s CheckIn emp ip1 t1 = Inr p1 \<and>
      decide tz m rt s CheckIn emp ip2 t2 = Inr p2 \<and>
      shiftKey tz rt t2 = shiftKey tz rt t1 \<and> commit tz m s p1 = Inr s1 \<longrightarrow>
        commit tz m (run tz m rt s1 between) p2 =
          Inl (ServerError (if validate m (recOf p2) then DuplicateKey else ValidationError))"
  proof (intro impI, elim conjE)
    assume d1: "decide tz m rt s CheckIn emp ip1 t1 = Inr p1"
      and d2: "decide tz m rt s CheckIn emp ip2 t2 = Inr p2"
      and key: "shiftKey tz rt t2 = shiftKey tz rt t1"
      and c1: "commit tz m s p1 = Inr s1"
    from commit_CheckIn_taken [OF inv d1 c1]
    have "s1 (emp, shiftKey tz rt t1) \<noteq> None" by simp
    with run_dom [where s = s1 and k = "(emp, shiftKey tz rt t1)" and tz = tz and m = m
        and rt = rt and reqs = between]
    have taken: "run tz m rt s1 between (emp, shiftKey tz rt t1) \<noteq> None" by blast
    from decide_CheckIn_fresh [OF inv d2] have p2: "p2 = Create (recOf p2)" by simp
    from decide_record [OF inv d2] key
    have k2: "(employee (recOf p2), date (recOf p2)) = (emp, shiftKey tz rt t1)" by simp
    have "commit tz m (run tz m rt s1 between) (Create (recOf p2)) =
        Inl (ServerError (if validate m (recOf p2) then DuplicateKey else ValidationError))"
      using taken k2 by (auto simp add: commit_def create_def)
    with p2 show "commit tz m (run tz m rt s1 between) p2 =
        Inl (ServerError (if validate m (recOf p2) then DuplicateKey else ValidationError))"
      by simp
  qed
  from again dead race show ?thesis by blast
qed

lemma dayStore_first:
  "decide 0 DayModel DayRoutes Map.empty CheckIn 1 ''10.0.0.1'' (mkDate 0 2024 3 11 7 3) =
     Inr (Create (newAttendance DayModel 1 (mkDate 0 2024 3 11 0 0)
               \<lparr>time = mkDate 0 2024 3 11 7 3, ipAddress = ''10.0.0.1''\<rparr> (Some Present)))"
  "decide 0 DayModel DayRoutes Map.empty CheckIn 1 ''10.0.0.2'' (mkDate 0 2024 3 11 7 3) =
     Inr racingCreate"
  "commit 0 DayModel Map.empty
     (Create (newAttendance DayModel 1 (mkDate 0 2024 3 11 0 0)
               \<lparr>time = mkDate 0 2024 3 11 7 3, ipAddress = ''10.0.0.1''\<rparr> (Some Present))) =
     Inr (dayStore 0)"
  by (simp_all add: racingCreate_def dayStore_def days_simps clock_defs handler_defs hook_defs
      Let_def)

theorem second_checkIn_rejected_witness:
  "handle 0 Night405 NightRoutes
     (run 0 Night405 NightRoutes nightStore
        [(StartBreak None, 1, ''10.0.0.1'', mkDate 0 2024 3 9 22 0),
         (EndBreak, 1, ''10.0.0.1'', mkDate 0 2024 3 9 22 30)])
     CheckIn 1 ''10.0.0.1'' (mkDate 0 2024 3 9 23 0) = Inl AlreadyCheckedIn \<and>
   handle 0 Night405 NightRoutes nightStore CheckIn 1 ''10.0.0.1'' (mkDate 0 2024 3 10 5 0) =
     Inl OutsideWindow \<and>
   commit 0 DayModel
     (run 0 DayModel DayRoutes (dayStore 0)
        [(StartBreak None, 1, ''10.0.0.1'', mkDate 0 2024 3 11 10 0)])
     racingCreate = Inl (ServerError DuplicateKey)"
proof -
  have k: "shiftKey 0 NightRoutes (mkDate 0 2024 3 9 23 0) =
      shiftKey 0 NightRoutes (mkDate 0 2024 3 9 19 0)"
    "18 \<le> getHours 0 (mkDate 0 2024 3 9 23 0)"
    by (simp_all add: shiftKey_def days_simps clock_defs)
  have v: "validate DayModel (recOf racingCreate)"
    by (simp add: racingCreate_def recOf_def validate_def reasonsValid_def newAttendance_def)
  have "handle 0 Night405 NightRoutes
     (run 0 Night405 NightRoutes nightStore
        [(StartBreak None, 1, ''10.0.0.1'', mkDate 0 2024 3 9 22 0),
         (EndBreak, 1, ''10.0.0.1'', mkDate 0 2024 3 9 22 30)])
     CheckIn 1 ''10.0.0.1'' (mkDate 0 2024 3 9 23 0) = Inl AlreadyCheckedIn"
    using second_checkIn_rejected [where reqs = "[]" and tz = 0 and m = Night405
        and rt = NightRoutes and emp = 1 and ?ip1.0 = "''10.0.0.1''"
        and ?t1.0 = "mkDate 0 2024 3 9 19 0" and ?s1.0 = nightStore
        and ?t2.0 = "mkDate 0 2024 3 9 23 0" and ?ip2.0 = "''10.0.0.1''"
        and between = "[(StartBreak None, 1, ''10.0.0.1'', mkDate 0 2024 3 9 22 0),
         (EndBreak, 1, ''10.0.0.1'', mkDate 0 2024 3 9 22 30)]", OF refl]
      nightStore_first k
    by simp
  moreover have "handle 0 Night405 NightRoutes nightStore CheckIn 1 ''10.0.0.1''
      (mkDate 0 2024 3 10 5 0) = Inl OutsideWindow"
    using second_checkIn_rejected [where reqs = "[]" and tz = 0 and m = Night405
        and rt = NightRoutes and emp = 1 and ?s2.0 = nightStore
        and ?t2.0 = "mkDate 0 2024 3 10 5 0" and ?ip2.0 = "''10.0.0.1''", OF refl]
    by (simp add: days_simps clock_defs)
  moreover have "commit 0 DayModel
     (run 0 DayModel DayRoutes (dayStore 0)
        [(StartBreak None, 1, ''10.0.0.1'', mkDate 0 2024 3 11 10 0)])
     racingCreate = Inl (ServerError DuplicateKey)"
    using second_checkIn_rejected [where reqs = "[]" and tz = 0 and m = DayModel
        and rt = DayRoutes and emp = 1 and ?ip1.0 = "''10.0.0.1''"
        and ?t1.0 = "mkDate 0 2024 3 11 7 3" and ?s1.0 = "dayStore 0"
        and ?t2.0 = "mkDate 0 2024 3 11 7 3" and ?ip2.0 = "''10.0.0.2''"
        and ?p2.0 = racingCreate
        and between = "[(StartBreak None, 1, ''10.0.0.1'', mkDate 0 2024 3 11 10 0)]", OF refl]
      dayStore_first v
    by simp
  ultimately show ?thesis by blast
qed

theorem second_checkIn_counterexample:
  "handle 0 Night405 NightRoutes Map.empty CheckIn 1 ''10.0.0.1'' (mkDate 0 2024 3 9 19 0) =
     Inr nightStore \<and>
   getShiftDate 0 (mkDate 0 2024 3 10 5 0) = getShiftDate 0 (mkDate 0 2024 3 9 19 0) \<and>
   handle 0 Night405 NightRoutes nightStore CheckIn 1 ''10.0.0.1'' (mkDate 0 2024 3 10 5 0) =
     Inl OutsideWindow \<and>
   handle 0 Night405 NightRoutes nightStore CheckIn 1 ''10.0.0.1'' (mkDate 0 2024 3 10 5 0) \<noteq>
     Inl AlreadyCheckedIn \<and>
   decide 0 DayModel DayRoutes Map.empty CheckIn 1 ''10.0.0.1'' (mkDate 0 2024 3 11 7 3) =
     Inr (Create (newAttendance DayModel 1 (mkDate 0 2024 3 11 0 0)
               \<lparr>time = mkDate 0 2024 3 11 7 3, ipAddress = ''10.0.0.1''\<rparr> (Some Present))) \<and>
   decide 0 DayModel DayRoutes Map.empty CheckIn 1 ''10.0.0.2'' (mkDate 0 2024 3 11 7 3) =
     Inr racingCreate \<and>
   commit 0 DayModel Map.empty
     (Create (newAttendance DayModel 1 (mkDate 0 2024 3 11 0 0)
               \<lparr>time = mkDate 0 2024 3 11 7 3, ipAddress = ''10.0.0.1''\<rparr> (Some Present))) =
     Inr (dayStore 0) \<and>
   commit 0 DayModel (dayStore 0) racingCreate = Inl (ServerError DuplicateKey) \<and>
   commit 0 DayModel (dayStore 0) racingCreate \<noteq> Inl AlreadyCheckedIn"
proof -
  have "commit 0 DayModel (dayStore 0) racingCreate = Inl (ServerError DuplicateKey)"
    by (simp add: racingCreate_def dayStore_def commit_def create_def validate_def
        reasonsValid_def newAttendance_def)
  moreover have "getShiftDate 0 (mkDate 0 2024 3 10 5 0) = getShiftDate 0 (mkDate 0 2024 3 9 19 0)"
    by (simp add: days_simps clock_defs)
  moreover have "handle 0 Night405 NightRoutes nightStore CheckIn 1 ''10.0.0.1''
      (mkDate 0 2024 3 10 5 0) = Inl OutsideWindow"
    by (simp add: handle_def nightCheckIn_def days_simps clock_defs)
  ultimately show ?thesis
    using nightStore_first dayStore_first by simp
qed

end
